theory Spec2Isabelle
  imports Complex_Main "HOL-Library.Word"
begin

unbundle bit_operations_syntax

text \<open>
  A voice note recorder in two processes. The client (\<^verbatim>\<open>client/voice_notes.py\<close>) captures
  audio, encodes it as a WAV container, has it transcribed and the transcript formatted
  by two HTTP services, and writes a note file. The server (\<^verbatim>\<open>server/whisper_server.py\<close>)
  is the transcription service: it stores the upload in a temporary file, runs the
  speech model on it and removes the file. Both are embedded here function by function;
  what they call outside themselves (the microphone, the network, the clock, the file
  system, the model) is a parameter.
\<close>

section \<open>Python values shared by the client and the server\<close>

text \<open>
  A Python \<^verbatim>\<open>str\<close> is a sequence of Unicode code points, and \<^verbatim>\<open>len\<close> and slicing count
  code points; it is modelled as a list of code point numbers. A \<^verbatim>\<open>bytes\<close> object is a list
  of 8-bit words, a numpy \<^verbatim>\<open>int16\<close> sample a 16-bit word.
\<close>

type_synonym pystr = "nat list"
type_synonym byte = "8 word"
type_synonym int16 = "16 word"

definition ascii :: "string \<Rightarrow> pystr" where
  "ascii s = map of_char s"

definition bytes_lit :: "string \<Rightarrow> byte list" where
  "bytes_lit s = map of_char s"

text \<open>
  Exceptions are values. Each carries what \<^verbatim>\<open>str(e)\<close> gives. The classes that the
  code tells apart are kept apart: \<^verbatim>\<open>requests.ConnectionError\<close>, \<^verbatim>\<open>requests.HTTPError\<close>
  (with the status code and body of its response), every other class derived from
  \<^verbatim>\<open>Exception\<close> (with its class name), and the classes derived from \<^verbatim>\<open>BaseException\<close>
  only (\<^verbatim>\<open>KeyboardInterrupt\<close>, \<^verbatim>\<open>SystemExit\<close>, \<^verbatim>\<open>asyncio.CancelledError\<close>), which
  \<^verbatim>\<open>except Exception\<close> does not catch.
\<close>

datatype pyexn =
    ConnectionError pystr
  | HTTPError pystr int pystr
  | OtherException pystr pystr
  | BaseExceptionOnly pystr pystr

fun exn_str :: "pyexn \<Rightarrow> pystr" where
  "exn_str (ConnectionError m) = m"
| "exn_str (HTTPError m status body) = m"
| "exn_str (OtherException cls m) = m"
| "exn_str (BaseExceptionOnly cls m) = m"

fun is_Exception :: "pyexn \<Rightarrow> bool" where
  "is_Exception (BaseExceptionOnly cls m) = False"
| "is_Exception e = True"

definition bindE :: "'e + 'a \<Rightarrow> ('a \<Rightarrow> 'e + 'b) \<Rightarrow> 'e + 'b" where
  "bindE m f = (case m of Inl e \<Rightarrow> Inl e | Inr x \<Rightarrow> f x)"

section \<open>The WAV container: the standard library's \<^verbatim>\<open>wave\<close> module\<close>

text \<open>
  \<^verbatim>\<open>audio_to_wav_bytes\<close> drives \<^verbatim>\<open>wave.Wave_write\<close> over an in-memory file. The writer
  is modelled method by method after the CPython module: its fields are a record, the
  in-memory file is the list of bytes written so far. \<^verbatim>\<open>struct.pack\<close> raises
  \<^verbatim>\<open>struct.error\<close> for a number that does not fit its field.
\<close>

definition struct_error :: "pystr \<Rightarrow> pyexn" where
  "struct_error m = OtherException (ascii ''struct.error'') m"

definition wave_Error :: "string \<Rightarrow> pyexn" where
  "wave_Error m = OtherException (ascii ''wave.Error'') (ascii m)"

definition le32 :: "nat \<Rightarrow> byte list" where
  "le32 n = [of_nat n, of_nat (n div 2 ^ 8), of_nat (n div 2 ^ 16), of_nat (n div 2 ^ 24)]"

definition le16 :: "nat \<Rightarrow> byte list" where
  "le16 n = [of_nat n, of_nat (n div 2 ^ 8)]"

definition pack_L :: "nat \<Rightarrow> pyexn + byte list" where
  "pack_L n =
     (if n < 2 ^ 32
      then Inr (le32 n)
      else Inl (struct_error ([39] @ ascii ''L'' @ [39] @ ascii '' format requires 0 <= number <= 4294967295'')))"

definition pack_H :: "nat \<Rightarrow> pyexn + byte list" where
  "pack_H n =
     (if n < 2 ^ 16
      then Inr (le16 n)
      else Inl (struct_error (ascii ''ushort format requires 0 <= number <= 65535'')))"

definition unpack_L :: "byte list \<Rightarrow> nat" where
  "unpack_L bs = unat (bs ! 0) + 2 ^ 8 * unat (bs ! 1) + 2 ^ 16 * unat (bs ! 2) + 2 ^ 24 * unat (bs ! 3)"

definition unpack_H :: "byte list \<Rightarrow> nat" where
  "unpack_H bs = unat (bs ! 0) + 2 ^ 8 * unat (bs ! 1)"

definition WAVE_FORMAT_PCM :: nat where
  "WAVE_FORMAT_PCM = 1"

record wave_write =
  ww_file :: "byte list"
  ww_nchannels :: nat
  ww_sampwidth :: nat
  ww_framerate :: nat
  ww_nframes :: nat
  ww_nframeswritten :: nat
  ww_datawritten :: nat
  ww_datalength :: nat
  ww_headerwritten :: bool

definition wave_open_wb :: wave_write where
  "wave_open_wb = \<lparr>ww_file = [], ww_nchannels = 0, ww_sampwidth = 0, ww_framerate = 0,
     ww_nframes = 0, ww_nframeswritten = 0, ww_datawritten = 0, ww_datalength = 0,
     ww_headerwritten = False\<rparr>"

definition setnchannels :: "nat \<Rightarrow> wave_write \<Rightarrow> pyexn + wave_write" where
  "setnchannels nchannels w =
     (if ww_datawritten w \<noteq> 0 then Inl (wave_Error ''cannot change parameters after starting to write'')
      else if nchannels < 1 then Inl (wave_Error ''bad # of channels'')
      else Inr (w\<lparr>ww_nchannels := nchannels\<rparr>))"

definition setsampwidth :: "nat \<Rightarrow> wave_write \<Rightarrow> pyexn + wave_write" where
  "setsampwidth sampwidth w =
     (if ww_datawritten w \<noteq> 0 then Inl (wave_Error ''cannot change parameters after starting to write'')
      else if sampwidth < 1 \<or> sampwidth > 4 then Inl (wave_Error ''bad sample width'')
      else Inr (w\<lparr>ww_sampwidth := sampwidth\<rparr>))"

definition setframerate :: "nat \<Rightarrow> wave_write \<Rightarrow> pyexn + wave_write" where
  "setframerate framerate w =
     (if ww_datawritten w \<noteq> 0 then Inl (wave_Error ''cannot change parameters after starting to write'')
      else if framerate \<le> 0 then Inl (wave_Error ''bad frame rate'')
      else Inr (w\<lparr>ww_framerate := framerate\<rparr>))"

text \<open>
  \<^verbatim>\<open>_write_header\<close>: the 36 bytes of the first \<^verbatim>\<open>struct.pack\<close>, field by field, after the
  four bytes \<^verbatim>\<open>RIFF\<close>, and then the data length. The first field that does not fit raises.
\<close>

definition write_header :: "nat \<Rightarrow> wave_write \<Rightarrow> pyexn + wave_write" where
  "write_header initlength w0 =
     (let w1 = w0\<lparr>ww_file := ww_file w0 @ bytes_lit ''RIFF''\<rparr>;
          w2 = (if ww_nframes w1 = 0
                then w1\<lparr>ww_nframes := initlength div (ww_nchannels w1 * ww_sampwidth w1)\<rparr>
                else w1);
          w = w2\<lparr>ww_datalength := ww_nframes w2 * ww_nchannels w2 * ww_sampwidth w2\<rparr>
      in bindE (pack_L (36 + ww_datalength w)) (\<lambda>form_length.
         bindE (pack_L 16) (\<lambda>fmt_size.
         bindE (pack_H WAVE_FORMAT_PCM) (\<lambda>format_tag.
         bindE (pack_H (ww_nchannels w)) (\<lambda>channels.
         bindE (pack_L (ww_framerate w)) (\<lambda>rate.
         bindE (pack_L (ww_nchannels w * ww_framerate w * ww_sampwidth w)) (\<lambda>byte_rate.
         bindE (pack_H (ww_nchannels w * ww_sampwidth w)) (\<lambda>block_align.
         bindE (pack_H (ww_sampwidth w * 8)) (\<lambda>bits.
         bindE (pack_L (ww_datalength w)) (\<lambda>data_length.
           Inr (w\<lparr>ww_file := ww_file w @ form_length @ bytes_lit ''WAVE'' @ bytes_lit ''fmt '' @
                     fmt_size @ format_tag @ channels @ rate @ byte_rate @ block_align @ bits @
                     bytes_lit ''data'' @ data_length,
                   ww_headerwritten := True\<rparr>)))))))))))"

definition ensure_header_written :: "nat \<Rightarrow> wave_write \<Rightarrow> pyexn + wave_write" where
  "ensure_header_written datasize w =
     (if \<not> ww_headerwritten w then
        if ww_nchannels w = 0 then Inl (wave_Error ''# channels not specified'')
        else if ww_sampwidth w = 0 then Inl (wave_Error ''sample width not specified'')
        else if ww_framerate w = 0 then Inl (wave_Error ''sampling rate not specified'')
        else write_header datasize w
      else Inr w)"

text \<open>
  \<^verbatim>\<open>_patchheader\<close> seeks back and overwrites the two length fields, which start at
  offsets 4 and 40 of the file (the header is the first thing written).
\<close>

definition overwrite_at :: "nat \<Rightarrow> byte list \<Rightarrow> byte list \<Rightarrow> byte list" where
  "overwrite_at pos new bs = take pos bs @ new @ drop (pos + length new) bs"

definition patchheader :: "wave_write \<Rightarrow> pyexn + wave_write" where
  "patchheader w =
     (if ww_datawritten w = ww_datalength w then Inr w
      else bindE (pack_L (36 + ww_datawritten w)) (\<lambda>form_length.
           bindE (pack_L (ww_datawritten w)) (\<lambda>data_length.
             Inr (w\<lparr>ww_file := overwrite_at 40 data_length (overwrite_at 4 form_length (ww_file w)),
                     ww_datalength := ww_datawritten w\<rparr>))))"

definition writeframesraw :: "byte list \<Rightarrow> wave_write \<Rightarrow> pyexn + wave_write" where
  "writeframesraw data w0 =
     bindE (ensure_header_written (length data) w0) (\<lambda>w.
       let nframes = length data div (ww_sampwidth w * ww_nchannels w)
       in Inr (w\<lparr>ww_file := ww_file w @ data,
                  ww_datawritten := ww_datawritten w + length data,
                  ww_nframeswritten := ww_nframeswritten w + nframes\<rparr>))"

definition writeframes :: "byte list \<Rightarrow> wave_write \<Rightarrow> pyexn + wave_write" where
  "writeframes data w0 =
     bindE (writeframesraw data w0) (\<lambda>w.
       if ww_datalength w \<noteq> ww_datawritten w then patchheader w else Inr w)"

definition wave_close :: "wave_write \<Rightarrow> pyexn + wave_write" where
  "wave_close w0 =
     bindE (ensure_header_written 0 w0) (\<lambda>w.
       if ww_datalength w \<noteq> ww_datawritten w then patchheader w else Inr w)"

subsection \<open>The client's encoder\<close>

definition SAMPLE_RATE :: nat where
  "SAMPLE_RATE = 16000"

text \<open>
  \<^verbatim>\<open>audio.tobytes()\<close> of an \<^verbatim>\<open>int16\<close> array: two bytes per sample, low byte first (the
  byte order of the x86 host; on such a host the module's byte swap does not apply).
\<close>

definition sample_bytes :: "int16 \<Rightarrow> byte list" where
  "sample_bytes s = [ucast s, ucast (drop_bit 8 s)]"

definition tobytes :: "int16 list \<Rightarrow> byte list" where
  "tobytes audio = concat (map sample_bytes audio)"

text \<open>
  The \<^verbatim>\<open>with\<close> block closes the writer on the way out; when the body raises, that
  exception (or the one the close raises in its place) leaves the function, so the
  function raises in either case and the model returns the body's exception.
\<close>

definition audio_to_wav_bytes :: "int16 list \<Rightarrow> pyexn + byte list" where
  "audio_to_wav_bytes audio =
     bindE (setnchannels 1 wave_open_wb) (\<lambda>wf1.
     bindE (setsampwidth 2 wf1) (\<lambda>wf2.
     bindE (setframerate SAMPLE_RATE wf2) (\<lambda>wf3.
     bindE (writeframes (tobytes audio) wf3) (\<lambda>wf4.
     bindE (wave_close wf4) (\<lambda>wf5.
       Inr (ww_file wf5))))))"

text \<open>The 44 bytes that precede \<open>n\<close> bytes of mono 16-bit samples at 16 kHz.\<close>

definition riff_header :: "nat \<Rightarrow> byte list" where
  "riff_header n =
     bytes_lit ''RIFF'' @ le32 (36 + n) @ bytes_lit ''WAVE'' @ bytes_lit ''fmt '' @
     le32 16 @ le16 1 @ le16 1 @ le32 16000 @ le32 32000 @ le16 2 @ le16 16 @
     bytes_lit ''data'' @ le32 n"

subsection \<open>Reading the container back\<close>

text \<open>
  The reading half of the same module, \<^verbatim>\<open>wave.Wave_read\<close>: the RIFF chunk, the
  \<^verbatim>\<open>WAVE\<close> tag, then the chunks inside until the data chunk, the format chunk having
  come first; other chunks are skipped, with the pad byte after an odd size. A file that
  ends inside a chunk header ends the search. The format must be PCM. \<^verbatim>\<open>readframes\<close>
  gives the bytes of the data chunk, \<^verbatim>\<open>numpy.frombuffer\<close> with \<^verbatim>\<open>dtype=int16\<close> the
  samples. For a damaged file the model says that the reader raises; which exception
  it raises follows the module only in the cases written out.
\<close>

record wave_fmt =
  wf_nchannels :: nat
  wf_sampwidth :: nat
  wf_framerate :: nat
  wf_framesize :: nat

record wave_read =
  wr_fmt :: wave_fmt
  wr_nframes :: nat
  wr_data :: "byte list"

definition EOFError :: pyexn where
  "EOFError = OtherException (ascii ''EOFError'') []"

definition read_fmt_chunk :: "byte list \<Rightarrow> pyexn + wave_fmt" where
  "read_fmt_chunk chunk =
     (if length chunk < 14 then Inl EOFError
      else let wFormatTag = unpack_H (take 2 chunk);
               nchannels = unpack_H (take 2 (drop 2 chunk));
               framerate = unpack_L (take 4 (drop 4 chunk))
           in if wFormatTag = WAVE_FORMAT_PCM then
                if length chunk < 16 then Inl EOFError
                else let sampwidth = (unpack_H (take 2 (drop 14 chunk)) + 7) div 8
                     in if sampwidth = 0 then Inl (wave_Error ''bad sample width'')
                        else if nchannels = 0 then Inl (wave_Error ''bad # of channels'')
                        else Inr \<lparr>wf_nchannels = nchannels, wf_sampwidth = sampwidth,
                                  wf_framerate = framerate, wf_framesize = nchannels * sampwidth\<rparr>
              else Inl (wave_Error ''unknown format''))"

function read_chunks :: "wave_fmt option \<Rightarrow> byte list \<Rightarrow> pyexn + wave_read" where
  "read_chunks fmt bs =
     (if length bs < 8 then Inl (wave_Error ''fmt chunk and/or data chunk missing'')
      else let chunkname = take 4 bs;
               chunksize = unpack_L (take 4 (drop 4 bs));
               rest = drop 8 bs
           in if chunkname = bytes_lit ''fmt '' then
                (case read_fmt_chunk (take chunksize rest) of
                   Inl e \<Rightarrow> Inl e
                 | Inr f \<Rightarrow> read_chunks (Some f) (drop (chunksize + chunksize mod 2) rest))
              else if chunkname = bytes_lit ''data'' then
                (case fmt of
                   None \<Rightarrow> Inl (wave_Error ''data chunk before fmt chunk'')
                 | Some f \<Rightarrow> Inr \<lparr>wr_fmt = f, wr_nframes = chunksize div wf_framesize f,
                                   wr_data = take chunksize rest\<rparr>)
              else read_chunks fmt (drop (chunksize + chunksize mod 2) rest))"
  by pat_completeness auto
termination
  by (relation "measure (\<lambda>(fmt, bs). length bs)") auto

declare read_chunks.simps [simp del]

definition wave_open_rb :: "byte list \<Rightarrow> pyexn + wave_read" where
  "wave_open_rb file =
     (if length file < 8 then Inl EOFError
      else if take 4 file \<noteq> bytes_lit ''RIFF'' then Inl (wave_Error ''file does not start with RIFF id'')
      else let riff = take (unpack_L (take 4 (drop 4 file))) (drop 8 file)
           in if take 4 riff \<noteq> bytes_lit ''WAVE'' then Inl (wave_Error ''not a WAVE file'')
              else read_chunks None (drop 4 riff))"

definition readframes :: "wave_read \<Rightarrow> nat \<Rightarrow> byte list" where
  "readframes r nframes = take (nframes * wf_framesize (wr_fmt r)) (wr_data r)"

definition sample_of_bytes :: "byte \<Rightarrow> byte \<Rightarrow> int16" where
  "sample_of_bytes lo hi = ucast lo OR push_bit 8 (ucast hi)"

fun samples_of :: "byte list \<Rightarrow> int16 list" where
  "samples_of (lo # hi # bs) = sample_of_bytes lo hi # samples_of bs"
| "samples_of bs = []"

definition frombuffer_int16 :: "byte list \<Rightarrow> pyexn + int16 list" where
  "frombuffer_int16 buf =
     (if length buf mod 2 \<noteq> 0
      then Inl (OtherException (ascii ''ValueError'') (ascii ''buffer size must be a multiple of element size''))
      else Inr (samples_of buf))"

definition wav_bytes_to_audio :: "byte list \<Rightarrow> pyexn + int16 list" where
  "wav_bytes_to_audio file =
     bindE (wave_open_rb file) (\<lambda>r. frombuffer_int16 (readframes r (wr_nframes r)))"

text \<open>The writer once the three parameters are set, before the first frame.\<close>

abbreviation writer_mono16 :: wave_write where
  "writer_mono16 \<equiv> \<lparr>ww_file = [], ww_nchannels = Suc 0, ww_sampwidth = 2, ww_framerate = 16000,
     ww_nframes = 0, ww_nframeswritten = 0, ww_datawritten = 0, ww_datalength = 0,
     ww_headerwritten = False\<rparr>"

section \<open>Strings, numbers and JSON values\<close>

text \<open>
  \<^verbatim>\<open>str.strip()\<close> removes the code points for which \<^verbatim>\<open>str.isspace\<close> holds, at both ends.
  \<^verbatim>\<open>str.lower()\<close> is only ever compared with \<^verbatim>\<open>"q"\<close>; the one other code point whose
  lower case is \<^verbatim>\<open>q\<close> is \<^verbatim>\<open>Q\<close>, so mapping the letters A to Z decides the comparison
  as the full Unicode mapping does.
\<close>

definition py_isspace :: "nat \<Rightarrow> bool" where
  "py_isspace c \<longleftrightarrow>
     c \<in> {9, 10, 11, 12, 13, 28, 29, 30, 31, 32, 133, 160, 5760, 8232, 8233, 8239, 8287, 12288}
     \<or> (8192 \<le> c \<and> c \<le> 8202)"

definition py_strip :: "pystr \<Rightarrow> pystr" where
  "py_strip s = rev (dropWhile py_isspace (rev (dropWhile py_isspace s)))"

definition py_lower :: "pystr \<Rightarrow> pystr" where
  "py_lower s = map (\<lambda>c. if 65 \<le> c \<and> c \<le> 90 then c + 32 else c) s"

fun py_join :: "pystr \<Rightarrow> pystr list \<Rightarrow> pystr" where
  "py_join sep [] = []"
| "py_join sep [x] = x"
| "py_join sep (x # y # ys) = x @ sep @ py_join sep (y # ys)"

function str_nat :: "nat \<Rightarrow> pystr" where
  "str_nat n = (if n < 10 then [48 + n] else str_nat (n div 10) @ [48 + n mod 10])"
  by pat_completeness auto
termination
  by (relation "measure (\<lambda>n. n)") auto

declare str_nat.simps [simp del]

definition str_int :: "int \<Rightarrow> pystr" where
  "str_int i = (if i < 0 then [45] @ str_nat (nat (- i)) else str_nat (nat i))"

definition zfill :: "nat \<Rightarrow> pystr \<Rightarrow> pystr" where
  "zfill width s = replicate (width - length s) 48 @ s"

text \<open>
  A Python \<^verbatim>\<open>float\<close> is carried as the real number it stands for. What the language does with
  floats is not computed here: true division of two integers, \<^verbatim>\<open>round(x, ndigits)\<close> and
  \<^verbatim>\<open>str(x)\<close> are parameters of the model, and every statement below holds whatever they are.
\<close>

type_synonym pyfloat = real

record float_ops =
  fl_truediv :: "int \<Rightarrow> int \<Rightarrow> pyfloat"
  fl_round :: "pyfloat \<Rightarrow> int \<Rightarrow> pyfloat"
  fl_str :: "pyfloat \<Rightarrow> pystr"

text \<open>
  The values a decoded JSON object of the two services holds: strings and numbers.
\<close>

datatype json = JStr pystr | JInt int | JFloat pyfloat

type_synonym pydict = "pystr \<rightharpoonup> json"

fun py_str :: "float_ops \<Rightarrow> json \<Rightarrow> pystr" where
  "py_str ops (JStr s) = s"
| "py_str ops (JInt i) = str_int i"
| "py_str ops (JFloat x) = fl_str ops x"

definition KeyError :: "pystr \<Rightarrow> pyexn" where
  "KeyError k = OtherException (ascii ''KeyError'') ([39] @ k @ [39])"

definition TypeError :: "pystr \<Rightarrow> pyexn" where
  "TypeError m = OtherException (ascii ''TypeError'') m"

definition getitem :: "pydict \<Rightarrow> pystr \<Rightarrow> pyexn + json" where
  "getitem d k = (case d k of None \<Rightarrow> Inl (KeyError k) | Some v \<Rightarrow> Inr v)"

fun slice_to :: "nat \<Rightarrow> json \<Rightarrow> pyexn + pystr" where
  "slice_to n (JStr s) = Inr (take n s)"
| "slice_to n (JInt i) = Inl (TypeError ([39] @ ascii ''int'' @ [39] @ ascii '' object is not subscriptable''))"
| "slice_to n (JFloat x) = Inl (TypeError ([39] @ ascii ''float'' @ [39] @ ascii '' object is not subscriptable''))"

fun py_len :: "json \<Rightarrow> pyexn + nat" where
  "py_len (JStr s) = Inr (length s)"
| "py_len (JInt i) = Inl (TypeError (ascii ''object of type '' @ [39] @ ascii ''int'' @ [39] @ ascii '' has no len()''))"
| "py_len (JFloat x) = Inl (TypeError (ascii ''object of type '' @ [39] @ ascii ''float'' @ [39] @ ascii '' has no len()''))"

section \<open>The client: \<^verbatim>\<open>voice_notes.py\<close>\<close>

subsection \<open>The world the client acts on\<close>

text \<open>
  What the client does to the outside is recorded in order: lines printed, prompts of
  \<^verbatim>\<open>input\<close>, HTTP requests, directories made, files written. The files of the output
  directory are a map from path to text. A path is the list of its components;
  \<^verbatim>\<open>p / name\<close> adds one.
\<close>

type_synonym path = "pystr list"

datatype payload =
    FileUpload pystr pystr "byte list" pystr
  | JsonBody pystr pystr bool

datatype event =
    Print pystr
  | Input pystr
  | Post pystr payload nat
  | Mkdir path
  | WriteText path pystr

record world =
  out :: "event list"
  files :: "path \<rightharpoonup> pystr"

type_synonym 'a io = "world \<Rightarrow> world \<times> (pyexn + 'a)"

definition emit :: "event \<Rightarrow> world \<Rightarrow> world" where
  "emit e w = w\<lparr>out := out w @ [e]\<rparr>"

definition bindIO :: "'a io \<Rightarrow> ('a \<Rightarrow> 'b io) \<Rightarrow> 'b io" where
  "bindIO m f w = (case m w of (w', Inl e) \<Rightarrow> (w', Inl e) | (w', Inr x) \<Rightarrow> f x w')"

definition liftE :: "pyexn + 'a \<Rightarrow> 'a io" where
  "liftE r w = (w, r)"

definition print :: "pystr \<Rightarrow> unit io" where
  "print s w = (emit (Print s) w, Inr ())"

text \<open>
  What one pass of the loop meets: the line typed at the prompt (or the exception
  \<^verbatim>\<open>input\<close> raises), the frames the audio callback has appended when Enter is pressed (or
  the exception the stream or the blocking read raises), the two services as functions from
  the request to the decoded JSON object (or the exception of \<^verbatim>\<open>requests.post\<close>,
  \<^verbatim>\<open>raise_for_status\<close> or \<^verbatim>\<open>resp.json\<close>), the clock, and whether the file system refuses.
\<close>

record datetime =
  dt_year :: nat
  dt_month :: nat
  dt_day :: nat
  dt_hour :: nat
  dt_minute :: nat
  dt_second :: nat
  dt_microsecond :: nat

record iter_env =
  prompt_input :: "pyexn + pystr"
  capture :: "pyexn + int16 list list"
  whisper_post :: "byte list \<Rightarrow> pyexn + pydict"
  ollama_post :: "pystr \<Rightarrow> pyexn + pydict"
  clock :: datetime
  fs_mkdir_error :: "pyexn option"
  fs_write_error :: "pyexn option"

subsection \<open>Configuration\<close>

definition WHISPER_URL :: pystr where
  "WHISPER_URL = ascii ''http://192.168.10.163:8090/transcribe''"

definition OLLAMA_URL :: pystr where
  "OLLAMA_URL = ascii ''http://192.168.10.163:11434/api/generate''"

definition OLLAMA_MODEL :: pystr where
  "OLLAMA_MODEL = ascii ''llama3.1:latest''"

definition OBSIDIAN_VAULT :: path where
  "OBSIDIAN_VAULT = [ascii ''C:'' @ [92] @ ascii ''Users'' @ [92] @ ascii ''SyncthingServiceAcct'' @ [92] @
     ascii ''mine'' @ [92] @ ascii ''mine'' @ [92] @ ascii ''Wiser'' @ [92] @ ascii ''Voice Notes'']"

text \<open>The template up to its one placeholder, which is its end.\<close>

definition MEETING_PROMPT :: "pystr \<Rightarrow> pystr" where
  "MEETING_PROMPT transcript =
     ascii ''You are a meeting notes formatter. Given a raw voice transcript, produce clean structured meeting notes in markdown. Include these sections only if relevant content exists:\<newline>'' @
     ascii ''\<newline>'' @
     ascii ''## Attendees\<newline>'' @
     ascii ''- (list if mentioned)\<newline>'' @
     ascii ''\<newline>'' @
     ascii ''## Key Points\<newline>'' @
     ascii ''- (main topics discussed)\<newline>'' @
     ascii ''\<newline>'' @
     ascii ''## Action Items\<newline>'' @
     ascii ''- [ ] (tasks assigned, with owner if mentioned)\<newline>'' @
     ascii ''\<newline>'' @
     ascii ''## Decisions\<newline>'' @
     ascii ''- (decisions made)\<newline>'' @
     ascii ''\<newline>'' @
     ascii ''## Notes\<newline>'' @
     ascii ''- (anything else noteworthy)\<newline>'' @
     ascii ''\<newline>'' @
     ascii ''Keep it concise. Do not add information that wasn'' @ [39] @ ascii ''t in the transcript. If the transcript is short or informal, keep the notes proportionally brief.\<newline>'' @
     ascii ''\<newline>'' @
     ascii ''Raw transcript:\<newline>'' @
     transcript"

text \<open>
  \<^verbatim>\<open>str(path)\<close>, for the console only: the components joined by the separator of the
  Windows host the vault path is written for.
\<close>

definition path_str :: "path \<Rightarrow> pystr" where
  "path_str p = py_join [92] p"

definition path_div :: "path \<Rightarrow> pystr \<Rightarrow> path" where
  "path_div p name = p @ [name]"

subsection \<open>\<^verbatim>\<open>record_audio\<close>\<close>

definition record_audio :: "iter_env \<Rightarrow> int16 list io" where
  "record_audio env =
     bindIO (print (ascii ''\<newline>  Recording... press Enter to stop.\<newline>'')) (\<lambda>_.
     bindIO (liftE (capture env)) (\<lambda>frames.
       if frames = [] then liftE (Inr [])
       else liftE (Inr (concat frames))))"

subsection \<open>\<^verbatim>\<open>transcribe\<close> and \<^verbatim>\<open>format_notes\<close>\<close>

definition transcribe :: "iter_env \<Rightarrow> byte list \<Rightarrow> pydict io" where
  "transcribe env wav_bytes =
     bindIO (print (ascii ''  Transcribing...'')) (\<lambda>_.
     bindIO (\<lambda>w. (emit (Post WHISPER_URL
                (FileUpload (ascii ''audio'') (ascii ''recording.wav'') wav_bytes (ascii ''audio/wav'')) 300) w,
              whisper_post env wav_bytes)) (\<lambda>resp.
       liftE (Inr resp)))"

definition format_notes :: "float_ops \<Rightarrow> iter_env \<Rightarrow> json \<Rightarrow> json io" where
  "format_notes ops env transcript =
     bindIO (print (ascii ''  Formatting notes with LLM...'')) (\<lambda>_.
     bindIO (\<lambda>w. (emit (Post OLLAMA_URL
                (JsonBody OLLAMA_MODEL (MEETING_PROMPT (py_str ops transcript)) False) 120) w,
              ollama_post env (MEETING_PROMPT (py_str ops transcript)))) (\<lambda>resp.
       liftE (getitem resp (ascii ''response''))))"

subsection \<open>\<^verbatim>\<open>save_notes\<close>\<close>

text \<open>
  \<^verbatim>\<open>strftime\<close> with the two formats of the source. \<^verbatim>\<open>%Y\<close> is the year in four digits
  (every platform agrees on that from the year 1000 on), the other fields have two.
\<close>

definition strftime_filename :: "datetime \<Rightarrow> pystr" where
  "strftime_filename now =
     zfill 4 (str_nat (dt_year now)) @ ascii ''-'' @ zfill 2 (str_nat (dt_month now)) @ ascii ''-'' @
     zfill 2 (str_nat (dt_day now)) @ ascii ''-'' @ zfill 2 (str_nat (dt_hour now)) @
     zfill 2 (str_nat (dt_minute now))"

definition strftime_heading :: "datetime \<Rightarrow> pystr" where
  "strftime_heading now =
     zfill 4 (str_nat (dt_year now)) @ ascii ''-'' @ zfill 2 (str_nat (dt_month now)) @ ascii ''-'' @
     zfill 2 (str_nat (dt_day now)) @ ascii '' '' @ zfill 2 (str_nat (dt_hour now)) @ ascii '':'' @
     zfill 2 (str_nat (dt_minute now))"

definition note_content :: "float_ops \<Rightarrow> datetime \<Rightarrow> json \<Rightarrow> json \<Rightarrow> json \<Rightarrow> pystr" where
  "note_content ops now formatted transcript duration =
     ascii ''# Meeting Notes - '' @ strftime_heading now @ ascii ''\<newline>'' @
     ascii ''\<newline>'' @
     ascii ''> Duration: '' @ py_str ops duration @ ascii ''s | Transcribed with Whisper + llama3.1\<newline>'' @
     ascii ''\<newline>'' @
     py_str ops formatted @ ascii ''\<newline>'' @
     ascii ''\<newline>'' @
     ascii ''---\<newline>'' @
     ascii ''\<newline>'' @
     ascii ''<details>\<newline>'' @
     ascii ''<summary>Raw Transcript</summary>\<newline>'' @
     ascii ''\<newline>'' @
     py_str ops transcript @ ascii ''\<newline>'' @
     ascii ''\<newline>'' @
     ascii ''</details>\<newline>''"

definition mkdir :: "iter_env \<Rightarrow> path \<Rightarrow> unit io" where
  "mkdir env p w =
     (case fs_mkdir_error env of
        Some e \<Rightarrow> (w, Inl e)
      | None \<Rightarrow> (emit (Mkdir p) w, Inr ()))"

definition write_text :: "iter_env \<Rightarrow> path \<Rightarrow> pystr \<Rightarrow> unit io" where
  "write_text env p content w =
     (case fs_write_error env of
        Some e \<Rightarrow> (w, Inl e)
      | None \<Rightarrow> (emit (WriteText p content) (w\<lparr>files := (files w)(p \<mapsto> content)\<rparr>), Inr ()))"

definition save_notes :: "float_ops \<Rightarrow> iter_env \<Rightarrow> json \<Rightarrow> json \<Rightarrow> json \<Rightarrow> path io" where
  "save_notes ops env formatted transcript duration =
     bindIO (mkdir env OBSIDIAN_VAULT) (\<lambda>_.
       let now = clock env;
           filename = strftime_filename now @ ascii ''-meeting-notes.md'';
           filepath = path_div OBSIDIAN_VAULT filename;
           content = note_content ops now formatted transcript duration
       in bindIO (write_text env filepath content) (\<lambda>_.
            liftE (Inr filepath)))"

subsection \<open>\<^verbatim>\<open>main\<close>\<close>

datatype outcome = Continue | Break | Raised pyexn

text \<open>
  The preview line 164 prints, from \<^verbatim>\<open>transcript[:200]\<close> and \<^verbatim>\<open>len(transcript)\<close>.
\<close>

definition preview :: "pystr \<Rightarrow> nat \<Rightarrow> pystr" where
  "preview head n = ascii ''  '' @ head @ (if n > 200 then ascii ''...'' else []) @ ascii ''\<newline>''"

text \<open>The body of the \<^verbatim>\<open>try\<close> statement, lines 161 to 168.\<close>

definition try_body :: "float_ops \<Rightarrow> iter_env \<Rightarrow> byte list \<Rightarrow> unit io" where
  "try_body ops env wav_bytes =
     bindIO (transcribe env wav_bytes) (\<lambda>result.
     bindIO (liftE (getitem result (ascii ''text''))) (\<lambda>transcript.
     bindIO (liftE (getitem result (ascii ''language''))) (\<lambda>language.
     bindIO (liftE (getitem result (ascii ''duration''))) (\<lambda>duration.
     bindIO (print (ascii ''\<newline>  Transcript ('' @ py_str ops language @ ascii '', '' @
                      py_str ops duration @ ascii ''s):'')) (\<lambda>_.
     bindIO (liftE (slice_to 200 transcript)) (\<lambda>head.
     bindIO (liftE (py_len transcript)) (\<lambda>n.
     bindIO (print (preview head n)) (\<lambda>_.
     bindIO (format_notes ops env transcript) (\<lambda>formatted.
     bindIO (liftE (getitem result (ascii ''duration''))) (\<lambda>duration'.
     bindIO (save_notes ops env formatted transcript duration') (\<lambda>filepath.
       print (ascii ''  Saved to: '' @ path_str filepath))))))))))))"

text \<open>The three \<^verbatim>\<open>except\<close> clauses, in the order of the source.\<close>

fun except_clauses :: "pyexn \<Rightarrow> world \<Rightarrow> world \<times> outcome" where
  "except_clauses (ConnectionError m) w =
     (emit (Print (ascii ''  ERROR: Cannot reach server. Is the Whisper server running?'')) w, Continue)"
| "except_clauses (HTTPError m status_code text) w =
     (emit (Print (ascii ''  ERROR: Server returned '' @ str_int status_code @ ascii '': '' @ text)) w, Continue)"
| "except_clauses (OtherException cls m) w =
     (emit (Print (ascii ''  ERROR: '' @ m)) w, Continue)"
| "except_clauses (BaseExceptionOnly cls m) w = (w, Raised (BaseExceptionOnly cls m))"

definition try_except :: "float_ops \<Rightarrow> iter_env \<Rightarrow> byte list \<Rightarrow> world \<Rightarrow> world \<times> outcome" where
  "try_except ops env wav_bytes w =
     (case try_body ops env wav_bytes w of
        (w', Inr _) \<Rightarrow> (w', Continue)
      | (w', Inl e) \<Rightarrow> except_clauses e w')"

text \<open>
  One pass of \<^verbatim>\<open>while True\<close>. Lines 144 to 158, which no \<^verbatim>\<open>try\<close> guards, either end the
  pass (quit, nothing captured, an exception) or give the encoded audio to the
  \<^verbatim>\<open>try\<close> statement of lines 160 to 175.
\<close>

definition before_try :: "float_ops \<Rightarrow> iter_env \<Rightarrow> world \<Rightarrow> world \<times> (outcome + byte list)" where
  "before_try ops env w0 =
     (let w1 = emit (Print (ascii ''\<newline>  Press Enter to start recording (or '' @ [39] @ ascii ''q'' @ [39] @
                       ascii '' to quit):'')) w0;
          w2 = emit (Input (ascii ''  > '')) w1
      in case prompt_input env of
           Inl e \<Rightarrow> (w2, Inl (Raised e))
         | Inr line \<Rightarrow>
             let choice = py_lower (py_strip line)
             in if choice = ascii ''q'' then (emit (Print (ascii ''  Bye!'')) w2, Inl Break)
                else case record_audio env w2 of
                       (w3, Inl e) \<Rightarrow> (w3, Inl (Raised e))
                     | (w3, Inr audio) \<Rightarrow>
                         if length audio = 0
                         then (emit (Print (ascii ''  No audio captured, try again.'')) w3, Inl Continue)
                         else let duration_sec = fl_round ops (fl_truediv ops (int (length audio)) (int SAMPLE_RATE)) 1;
                                  w4 = emit (Print (ascii ''  Captured '' @ fl_str ops duration_sec @
                                              ascii ''s of audio.'')) w3
                              in case audio_to_wav_bytes audio of
                                   Inl e \<Rightarrow> (w4, Inl (Raised e))
                                 | Inr wav_bytes \<Rightarrow> (w4, Inr wav_bytes))"

definition iteration :: "float_ops \<Rightarrow> iter_env \<Rightarrow> world \<Rightarrow> world \<times> outcome" where
  "iteration ops env w0 =
     (case before_try ops env w0 of
        (w, Inl ended) \<Rightarrow> (w, ended)
      | (w, Inr wav_bytes) \<Rightarrow> try_except ops env wav_bytes w)"

datatype exit_status = Exited | Crashed pyexn | AtPrompt

text \<open>
  The loop over the passes the environment provides for. \<^verbatim>\<open>break\<close> leaves it, an uncaught
  exception ends the process; when the passes given are used up the loop is where it
  started, before its next prompt.
\<close>

fun main_loop :: "float_ops \<Rightarrow> iter_env list \<Rightarrow> world \<Rightarrow> world \<times> exit_status" where
  "main_loop ops [] w = (w, AtPrompt)"
| "main_loop ops (env # envs) w =
     (case iteration ops env w of
        (w', Continue) \<Rightarrow> main_loop ops envs w'
      | (w', Break) \<Rightarrow> (w', Exited)
      | (w', Raised e) \<Rightarrow> (w', Crashed e))"

definition banner :: "world \<Rightarrow> world" where
  "banner w =
     emit (Print (ascii ''  Output:  '' @ path_str OBSIDIAN_VAULT))
       (emit (Print (ascii ''  Ollama:  '' @ OLLAMA_MODEL))
         (emit (Print (ascii ''  Whisper: '' @ WHISPER_URL))
           (emit (Print (replicate 50 61))
             (emit (Print (ascii ''  Voice Notes Recorder''))
               (emit (Print (replicate 50 61)) w)))))"

definition main :: "float_ops \<Rightarrow> iter_env list \<Rightarrow> world \<Rightarrow> world \<times> exit_status" where
  "main ops envs w = main_loop ops envs (banner w)"

section \<open>The server: \<^verbatim>\<open>whisper_server.py\<close>\<close>

text \<open>
  The server's file system is a map from path names to file contents, together with the
  descriptors that the request has opened and not yet closed, each with the path it is
  open on. A request meets: the suffix \<^verbatim>\<open>pathlib\<close> finds in the upload's file name;
  \<^verbatim>\<open>tempfile.mkstemp\<close>, which raises or returns a descriptor, the directory prefix and the
  random part of a new name; the read of the upload; \<^verbatim>\<open>open\<close> on the descriptor; the
  write to the file object; and the model. The model gets the files and the path, may
  change the files in any way, closes what it opens, and raises or returns the segments
  with the information record. The segments are a generator: it yields the listed
  segments and may then raise.

  Lines 8 to 12 of the module look for the CUDA libraries under \<^verbatim>\<open>C:\Python314\<close> and call
  \<^verbatim>\<open>os.add_dll_directory\<close>: the server is written for a Windows host. There a file cannot
  be deleted while a descriptor of \<^verbatim>\<open>mkstemp\<close> is open on it. On other systems the name is
  removed whatever is open. The environment says which host it is.
\<close>

type_synonym server_fs = "pystr \<rightharpoonup> byte list"

record server_state =
  sv_files :: server_fs
  sv_open :: "(nat \<times> pystr) list"

record segment =
  seg_text :: pystr

record transcription_info =
  info_language :: pystr
  info_duration :: pyfloat

record upload_file =
  filename :: "pystr option"

record server_env =
  os_windows :: bool
  path_suffix :: "pystr \<Rightarrow> pystr"
  mkstemp :: "pystr \<Rightarrow> pyexn + (nat \<times> pystr \<times> pystr)"
  upload_read :: "pyexn + byte list"
  tmp_open_error :: "pyexn option"
  tmp_write_error :: "pyexn option"
  model_transcribe :: "server_fs \<Rightarrow> pystr \<Rightarrow> nat \<Rightarrow>
     server_fs \<times> (pyexn + ((segment list \<times> pyexn option) \<times> transcription_info))"

record transcript_json =
  tj_text :: pystr
  tj_language :: pystr
  tj_duration :: pyfloat

text \<open>
  \<^verbatim>\<open>mkstemp\<close> names the file by the directory, the prefix \<^verbatim>\<open>tmp\<close>, the random part and the
  suffix, creates it empty and returns the descriptor it has opened on it. The name is one
  that did not exist, so no other request has a descriptor on it.
\<close>

definition tmp_name :: "pystr \<Rightarrow> pystr \<Rightarrow> pystr \<Rightarrow> pystr" where
  "tmp_name dir name suffix = dir @ ascii ''tmp'' @ name @ suffix"

definition upload_suffix :: "server_env \<Rightarrow> upload_file \<Rightarrow> pystr" where
  "upload_suffix env audio =
     (case filename audio of
        None \<Rightarrow> ascii ''.wav''
      | Some f \<Rightarrow> if f \<noteq> [] then path_suffix env f else ascii ''.wav'')"

text \<open>A path is in use while a descriptor is open on it; closing a descriptor ends that.\<close>

definition in_use :: "server_state \<Rightarrow> pystr \<Rightarrow> bool" where
  "in_use st p \<longleftrightarrow> p \<in> set (map snd (sv_open st))"

definition close_fd :: "nat \<Rightarrow> server_state \<Rightarrow> server_state" where
  "close_fd fd st = st\<lparr>sv_open := filter (\<lambda>(d, p). d \<noteq> fd) (sv_open st)\<rparr>"

text \<open>
  The exception of a delete that Windows refuses, \<^verbatim>\<open>PermissionError\<close> with \<^verbatim>\<open>WinError 32\<close>.
  Its message ends with the path as \<^verbatim>\<open>repr\<close> writes it: in quotes, every backslash doubled
  (a path of printable characters without a quote).
\<close>

definition path_repr :: "pystr \<Rightarrow> pystr" where
  "path_repr p = [39] @ concat (map (\<lambda>c. if c = 92 then [92, 92] else [c]) p) @ [39]"

definition sharing_violation :: "pystr \<Rightarrow> pyexn" where
  "sharing_violation p =
     OtherException (ascii ''PermissionError'')
       (ascii ''[WinError 32] The process cannot access the file because it is being used by another process: ''
        @ path_repr p)"

text \<open>
  \<^verbatim>\<open>Path.unlink\<close>. With \<^verbatim>\<open>missing_ok\<close> it swallows the \<^verbatim>\<open>FileNotFoundError\<close> of a missing
  file and nothing else: on a Windows host the delete of a file in use raises. On another
  host the name goes and the descriptor stays open.
\<close>

definition unlink :: "bool \<Rightarrow> bool \<Rightarrow> pystr \<Rightarrow> server_state \<Rightarrow> pyexn + server_state" where
  "unlink windows missing_ok p st =
     (if p \<in> dom (sv_files st) then
        if windows \<and> in_use st p then Inl (sharing_violation p)
        else Inr (st\<lparr>sv_files := (sv_files st)(p := None)\<rparr>)
      else if missing_ok then Inr st
      else Inl (OtherException (ascii ''FileNotFoundError'') p))"

text \<open>
  The body of the \<^verbatim>\<open>try\<close> statement, lines 30 to 42, with the suffix that line 27 has
  computed before it. Beside the state and the result it gives the value of \<^verbatim>\<open>tmp_path\<close>
  at its end, which the \<^verbatim>\<open>finally\<close> clause reads.

  The descriptor of line 30 is closed by the \<^verbatim>\<open>with\<close> statement of line 32 and by nothing
  else. When the read of line 31 raises, or \<^verbatim>\<open>open\<close> raises before its file object owns
  the descriptor, the body is left with the descriptor open. Once the file object exists,
  the \<^verbatim>\<open>with\<close> statement closes it, also when the write raises.
\<close>

definition server_try ::
  "float_ops \<Rightarrow> server_env \<Rightarrow> upload_file \<Rightarrow> server_fs \<Rightarrow>
     server_state \<times> pystr option \<times> (pyexn + transcript_json)" where
  "server_try ops env audio fs =
     (let suffix = upload_suffix env audio
      in case mkstemp env suffix of
           Inl e \<Rightarrow> (\<lparr>sv_files = fs, sv_open = []\<rparr>, None, Inl e)
         | Inr (fd, dir, name) \<Rightarrow>
             let tmp_path = tmp_name dir name suffix;
                 st1 = \<lparr>sv_files = fs(tmp_path \<mapsto> []), sv_open = [(fd, tmp_path)]\<rparr>
             in case upload_read env of
                  Inl e \<Rightarrow> (st1, Some tmp_path, Inl e)
                | Inr content \<Rightarrow>
                    (case tmp_open_error env of
                       Some e \<Rightarrow> (st1, Some tmp_path, Inl e)
                     | None \<Rightarrow>
                         (case tmp_write_error env of
                            Some e \<Rightarrow> (close_fd fd st1, Some tmp_path, Inl e)
                          | None \<Rightarrow>
                              let st2 = close_fd fd (st1\<lparr>sv_files := (sv_files st1)(tmp_path \<mapsto> content)\<rparr>)
                              in case model_transcribe env (sv_files st2) tmp_path 5 of
                                   (fs3, Inl e) \<Rightarrow> (st2\<lparr>sv_files := fs3\<rparr>, Some tmp_path, Inl e)
                                 | (fs3, Inr ((segments, gen_error), info)) \<Rightarrow>
                                     (case gen_error of
                                        Some e \<Rightarrow> (st2\<lparr>sv_files := fs3\<rparr>, Some tmp_path, Inl e)
                                      | None \<Rightarrow>
                                          (st2\<lparr>sv_files := fs3\<rparr>, Some tmp_path,
                                           Inr \<lparr>tj_text = py_join (ascii '' '') (map (\<lambda>segment. py_strip (seg_text segment)) segments),
                                                tj_language = info_language info,
                                                tj_duration = fl_round ops (info_duration info) 2\<rparr>)))))"

datatype handler_result =
    Returned transcript_json
  | HTTPException nat pystr
  | Propagated pyexn

text \<open>
  The \<^verbatim>\<open>except Exception\<close> clause, then the \<^verbatim>\<open>finally\<close> clause. An exception that the
  delete raises in the \<^verbatim>\<open>finally\<close> clause takes the place of the returned value, of the
  \<^verbatim>\<open>HTTPException\<close> or of the exception that was passing through.
\<close>

definition except_Exception :: "pyexn + transcript_json \<Rightarrow> handler_result" where
  "except_Exception r =
     (case r of
        Inr d \<Rightarrow> Returned d
      | Inl e \<Rightarrow> if is_Exception e then HTTPException 500 (exn_str e) else Propagated e)"

definition transcribe_handler ::
  "float_ops \<Rightarrow> server_env \<Rightarrow> upload_file \<Rightarrow> server_fs \<Rightarrow> server_state \<times> handler_result" where
  "transcribe_handler ops env audio fs =
     (case server_try ops env audio fs of
        (st, tmp_path, r) \<Rightarrow>
          (case tmp_path of
             None \<Rightarrow> (st, except_Exception r)
           | Some p \<Rightarrow>
               if p \<noteq> [] then
                 (case unlink (os_windows env) True p st of
                    Inl e \<Rightarrow> (st, Propagated e)
                  | Inr st' \<Rightarrow> (st', except_Exception r))
               else (st, except_Exception r)))"

text \<open>
  What the framework sends for the handler's result: a returned dictionary is the body of
  a 200 response, an \<^verbatim>\<open>HTTPException\<close> gives its status code and its detail as the body's
  \<^verbatim>\<open>detail\<close> field. For an exception that leaves the handler no response comes from it.
\<close>

datatype response_body = TranscriptBody transcript_json | DetailBody pystr

fun http_response :: "handler_result \<Rightarrow> (nat \<times> response_body) option" where
  "http_response (Returned d) = Some (200, TranscriptBody d)"
| "http_response (HTTPException status_code detail) = Some (status_code, DetailBody detail)"
| "http_response (Propagated e) = None"

section \<open>Notions used in the statements\<close>

text \<open>An action that never adds a given event to the record.\<close>

definition never_emits :: "event \<Rightarrow> 'a io \<Rightarrow> bool" where
  "never_emits ev m \<longleftrightarrow> (\<forall>w. ev \<in> set (out (fst (m w))) \<longrightarrow> ev \<in> set (out w))"

text \<open>A container that holds at least one frame, as the reader counts them.\<close>

definition holds_frames :: "byte list \<Rightarrow> bool" where
  "holds_frames wav = (case wave_open_rb wav of Inl e \<Rightarrow> False | Inr r \<Rightarrow> 0 < wr_nframes r)"

text \<open>The path of the note written at a given time.\<close>

definition note_path :: "datetime \<Rightarrow> path" where
  "note_path now = path_div OBSIDIAN_VAULT (strftime_filename now @ ascii ''-meeting-notes.md'')"

text \<open>
  The \<^verbatim>\<open>try\<close> body has left a descriptor open on the temporary file it created.
\<close>

definition left_open :: "server_state \<Rightarrow> pystr option \<Rightarrow> bool" where
  "left_open st tmp_path = (case tmp_path of None \<Rightarrow> False | Some p \<Rightarrow> in_use st p)"

section \<open>Concrete environments for the examples\<close>

text \<open>
  The examples need float operations that compute. These work on floats that have at most
  two decimal places, where decimal arithmetic is exact: division, rounding to
  \<open>ndigits\<close> places with ties to the even neighbour, and the shortest decimal rendering.
\<close>

definition decimal_round :: "pyfloat \<Rightarrow> int \<Rightarrow> pyfloat" where
  "decimal_round x ndigits =
     (let scale = 10 ^ nat ndigits;
          y = x * scale;
          f = \<lfloor>y\<rfloor>;
          r = y - of_int f;
          q = (if r < 1 / 2 then f else if r > 1 / 2 then f + 1 else if even f then f else f + 1)
      in of_int q / scale)"

definition decimal_str :: "pyfloat \<Rightarrow> pystr" where
  "decimal_str x =
     (let c = nat \<lfloor>x * 100\<rfloor>
      in str_nat (c div 100) @ ascii ''.'' @
         (if c mod 10 = 0 then [48 + c mod 100 div 10] else [48 + c mod 100 div 10, 48 + c mod 10]))"

definition example_ops :: float_ops where
  "example_ops = \<lparr>fl_truediv = (\<lambda>a b. of_int a / of_int b), fl_round = decimal_round, fl_str = decimal_str\<rparr>"

text \<open>
  A request on the Windows host whose upload is named \<^verbatim>\<open>recording.wav\<close>; the temporary
  directory is \<^verbatim>\<open>C:\Temp\<close>; the model finds two segments of English in 2.514 seconds of
  audio.
\<close>

definition example_tmp_dir :: pystr where
  "example_tmp_dir = ascii ''C:'' @ [92] @ ascii ''Temp'' @ [92]"

definition example_tmp_path :: pystr where
  "example_tmp_path = example_tmp_dir @ ascii ''tmpk3x9.wav''"

definition example_server_env :: server_env where
  "example_server_env =
     \<lparr>os_windows = True,
      path_suffix = (\<lambda>f. ascii ''.wav''),
      mkstemp = (\<lambda>suffix. Inr (3, example_tmp_dir, ascii ''k3x9'')),
      upload_read = Inr [82, 73, 70, 70],
      tmp_open_error = None,
      tmp_write_error = None,
      model_transcribe = (\<lambda>fs p beam_size.
        (fs, Inr (([\<lparr>seg_text = ascii '' hello''\<rparr>, \<lparr>seg_text = ascii '' world ''\<rparr>], None),
                  \<lparr>info_language = ascii ''en'', info_duration = 2514 / 1000\<rparr>)))\<rparr>"

definition example_upload :: upload_file where
  "example_upload = \<lparr>filename = Some (ascii ''recording.wav'')\<rparr>"

text \<open>
  A pass of the loop in which three samples are captured, the transcription service answers
  with a short English transcript and the text generation service with two lines, on
  5 March 2024 at 09:07:31.
\<close>

definition example_result :: pydict where
  "example_result = [ascii ''text'' \<mapsto> JStr (ascii ''hello''), ascii ''language'' \<mapsto> JStr (ascii ''en''),
     ascii ''duration'' \<mapsto> JFloat (251 / 100)]"

definition example_env :: iter_env where
  "example_env =
     \<lparr>prompt_input = Inr [],
      capture = Inr [[513, 1027], [- 5]],
      whisper_post = (\<lambda>wav. Inr example_result),
      ollama_post = (\<lambda>prompt. Inr [ascii ''response'' \<mapsto> JStr (ascii ''## Key Points\<newline>- x'')]),
      clock = \<lparr>dt_year = 2024, dt_month = 3, dt_day = 5, dt_hour = 9, dt_minute = 7, dt_second = 31,
               dt_microsecond = 0\<rparr>,
      fs_mkdir_error = None,
      fs_write_error = None\<rparr>"

definition empty_world :: world where
  "empty_world = \<lparr>out = [], files = Map.empty\<rparr>"

text \<open>The encoded capture of that pass, and the world when its \<^verbatim>\<open>try\<close> statement is reached.\<close>

definition example_wav :: "byte list" where
  "example_wav = riff_header 6 @ tobytes [513, 1027, - 5]"

definition example_at_try :: world where
  "example_at_try =
     \<lparr>out = [Print (ascii ''\<newline>  Press Enter to start recording (or '' @ [39] @ ascii ''q'' @ [39] @ ascii '' to quit):''),
             Input (ascii ''  > ''),
             Print (ascii ''\<newline>  Recording... press Enter to stop.\<newline>''),
             Print (ascii ''  Captured 0.0s of audio.'')],
      files = Map.empty\<rparr>"

text \<open>
  Variants of that pass: a transcript of 201 letters; a second pass 27 seconds later, in
  the same minute; no frame captured; no input device; a server that cannot be reached.
\<close>

definition example_env_long :: iter_env where
  "example_env_long =
     example_env\<lparr>whisper_post := (\<lambda>wav. Inr (example_result(ascii ''text'' \<mapsto> JStr (replicate 201 97))))\<rparr>"

definition example_env_later :: iter_env where
  "example_env_later =
     example_env\<lparr>clock := \<lparr>dt_year = 2024, dt_month = 3, dt_day = 5, dt_hour = 9, dt_minute = 7,
                             dt_second = 58, dt_microsecond = 0\<rparr>,
                  ollama_post := (\<lambda>prompt. Inr [ascii ''response'' \<mapsto> JStr (ascii ''## Notes\<newline>- y'')])\<rparr>"

definition example_env_silent :: iter_env where
  "example_env_silent = example_env\<lparr>capture := Inr []\<rparr>"

definition example_env_no_device :: iter_env where
  "example_env_no_device =
     example_env\<lparr>capture := Inl (OtherException (ascii ''sounddevice.PortAudioError'')
                                  (ascii ''Error querying device -1''))\<rparr>"

definition example_env_offline :: iter_env where
  "example_env_offline =
     example_env\<lparr>whisper_post := (\<lambda>wav. Inl (ConnectionError (ascii ''Connection refused'')))\<rparr>"

text \<open>The same request with a model call that raises.\<close>

definition example_server_env_model_raises :: server_env where
  "example_server_env_model_raises =
     example_server_env\<lparr>model_transcribe := (\<lambda>fs p beam_size.
        (fs, Inl (OtherException (ascii ''RuntimeError'') (ascii ''CUDA out of memory''))))\<rparr>"

text \<open>The same request with a read of the upload that raises \<^verbatim>\<open>MemoryError()\<close>.\<close>

definition example_server_env_read_raises :: server_env where
  "example_server_env_read_raises =
     example_server_env\<lparr>upload_read := Inl (OtherException (ascii ''MemoryError'') [])\<rparr>"

text \<open>
  The same request, cancelled while the upload is read, on the Windows host and on a host
  that deletes a file whatever is open on it.
\<close>

definition example_server_env_cancelled :: server_env where
  "example_server_env_cancelled =
     example_server_env\<lparr>upload_read := Inl (BaseExceptionOnly (ascii ''asyncio.CancelledError'') [])\<rparr>"

definition example_server_env_cancelled_elsewhere :: server_env where
  "example_server_env_cancelled_elsewhere = example_server_env_cancelled\<lparr>os_windows := False\<rparr>"


section \<open>Round trip through the container\<close>

lemma le_bytes_sum:
  fixes n :: nat
  assumes "n < 2 ^ 32"
  shows "n mod 256 + 256 * (n div 256 mod 256) + 65536 * (n div 65536 mod 256)
          + 16777216 * (n div 16777216 mod 256) = n"
proof -
  define q1 where "q1 = n div 256"
  define q2 where "q2 = q1 div 256"
  define q3 where "q3 = q2 div 256"
  have n: "n = 256 * q1 + n mod 256" unfolding q1_def by simp
  have q1: "q1 = 256 * q2 + q1 mod 256" unfolding q2_def by simp
  have q2: "q2 = 256 * q3 + q2 mod 256" unfolding q3_def by simp
  have e2: "n div 65536 = q2" unfolding q2_def q1_def by (simp add: div_mult2_eq)
  have e3: "n div 16777216 = q3" unfolding q3_def q2_def q1_def by (simp add: div_mult2_eq)
  have "q3 < 256" using assms unfolding e3[symmetric] by simp
  then have m3: "q3 mod 256 = q3" by simp
  have "n mod 256 + 256 * (q1 mod 256) + 65536 * (q2 mod 256) + 16777216 * (q3 mod 256) = n"
    unfolding m3 using n q1 q2 by linarith
  then show ?thesis unfolding e2 e3 q1_def .
qed

lemma unpack_pack_L:
  assumes "n < 2 ^ 32"
  shows "unpack_L [of_nat n, of_nat (n div 2 ^ 8), of_nat (n div 2 ^ 16), of_nat (n div 2 ^ 24)] = n"
proof -
  have "n div 16777216 < 256" using assms by simp
  then have "n div 16777216 mod 256 = n div 16777216" by simp
  with le_bytes_sum[OF assms] show ?thesis
    by (simp add: unpack_L_def unat_of_nat)
qed

lemma length_tobytes: "length (tobytes a) = 2 * length a"
  by (induction a) (simp_all add: tobytes_def sample_bytes_def)

lemma bind_pack_L: "n < 2 ^ 32 \<Longrightarrow> bindE (pack_L n) f = f (le32 n)"
  by (simp add: bindE_def pack_L_def)
lemma bind_pack_H: "n < 2 ^ 16 \<Longrightarrow> bindE (pack_H n) f = f (le16 n)"
  by (simp add: bindE_def pack_H_def)

lemma writer_ready:
  "bindE (setnchannels 1 wave_open_wb) (\<lambda>wf1.
     bindE (setsampwidth 2 wf1) (\<lambda>wf2. bindE (setframerate SAMPLE_RATE wf2) f)) =
   f writer_mono16"
  by (simp add: bindE_def setnchannels_def setsampwidth_def setframerate_def wave_open_wb_def SAMPLE_RATE_def)

lemma write_header_ok:
  assumes "36 + 2 * k < 2 ^ 32"
  shows "write_header (2 * k) writer_mono16 =
     Inr (writer_mono16\<lparr>ww_nframes := k, ww_datalength := 2 * k, ww_headerwritten := True,
            ww_file := riff_header (2 * k)\<rparr>)"
  using assms
  by (simp add: write_header_def Let_def bind_pack_L bind_pack_H WAVE_FORMAT_PCM_def
        riff_header_def mult.commute)

lemma write_header_overflow:
  assumes "\<not> 36 + 2 * k < 2 ^ 32"
  shows "write_header (2 * k) writer_mono16 =
     Inl (struct_error ([39] @ ascii ''L'' @ [39] @ ascii '' format requires 0 <= number <= 4294967295''))"
  using assms
  by (simp add: write_header_def Let_def bindE_def pack_L_def mult.commute)

lemma audio_to_wav_bytes_ok:
  assumes "36 + 2 * length a < 2 ^ 32"
  shows "audio_to_wav_bytes a = Inr (riff_header (2 * length a) @ tobytes a)"
  unfolding audio_to_wav_bytes_def writer_ready
  by (simp add: writeframes_def writeframesraw_def ensure_header_written_def wave_close_def
        length_tobytes write_header_ok[OF assms] bindE_def)

lemma audio_to_wav_bytes_overflow:
  assumes "\<not> 36 + 2 * length a < 2 ^ 32"
  shows "audio_to_wav_bytes a =
     Inl (struct_error ([39] @ ascii ''L'' @ [39] @ ascii '' format requires 0 <= number <= 4294967295''))"
  unfolding audio_to_wav_bytes_def writer_ready
  by (simp add: writeframes_def writeframesraw_def ensure_header_written_def
        length_tobytes write_header_overflow[OF assms] bindE_def)

lemma sample_of_bytes_inverse: "sample_of_bytes (ucast s) (ucast (drop_bit 8 s)) = s"
  unfolding sample_of_bytes_def
  by (rule bit_word_eqI) (auto simp add: bit_simps)

lemma samples_of_tobytes: "samples_of (tobytes a) = a"
  by (induction a) (simp_all add: tobytes_def sample_bytes_def sample_of_bytes_inverse)

lemma unpack_le32: "n < 2 ^ 32 \<Longrightarrow> unpack_L (le32 n) = n"
  unfolding le32_def by (rule unpack_pack_L)

lemma open_riff:
  assumes "unpack_L [a0, a1, a2, a3] = 36 + n" and "length r = 32 + n"
  shows "wave_open_rb ([82, 73, 70, 70, a0, a1, a2, a3] @ [87, 65, 86, 69] @ r) = read_chunks None r"
proof -
  have len: "length ([87, 65, 86, 69] @ r) = 36 + n" using assms(2) by simp
  have t1: "take 4 ([82, 73, 70, 70, a0, a1, a2, a3] @ [87, 65, 86, 69] @ r) = bytes_lit ''RIFF''"
    by (simp add: bytes_lit_def)
  have t2: "\<not> length ([82, 73, 70, 70, a0, a1, a2, a3] @ [87, 65, 86, 69] @ r) < 8"
    by simp
  have t3: "take 4 (drop 4 ([82, 73, 70, 70, a0, a1, a2, a3] @ [87, 65, 86, 69] @ r)) = [a0, a1, a2, a3]"
    by simp
  have t4: "drop 8 ([82, 73, 70, 70, a0, a1, a2, a3] @ [87, 65, 86, 69] @ r) = [87, 65, 86, 69] @ r"
    by simp
  have t5: "take (36 + n) ([87, 65, 86, 69] @ r) = [87, 65, 86, 69] @ r"
    using len by simp
  have t6: "take 4 ([87, 65, 86, 69] @ r) = bytes_lit ''WAVE''"
    by (simp add: bytes_lit_def)
  have t7: "drop 4 ([87, 65, 86, 69] @ r) = r"
    by simp
  show ?thesis
    unfolding wave_open_rb_def
    by (simp only: t1 t2 t3 t4 t5 t6 t7 assms(1) if_False Let_def not_not if_True refl not_True_eq_False)
qed

lemma read_fmt:
  "read_chunks None ([102, 109, 116, 32, 16, 0, 0, 0] @
       [1, 0, 1, 0, 128, 62, 0, 0, 0, 125, 0, 0, 2, 0, 16, 0] @ r) =
   read_chunks (Some \<lparr>wf_nchannels = 1, wf_sampwidth = 2, wf_framerate = 16000, wf_framesize = 2\<rparr>) r"
proof -
  have f: "read_fmt_chunk [1, 0, 1, 0, 128, 62, 0, 0, 0, 125, 0, 0, 2, 0, 16, 0] =
     Inr \<lparr>wf_nchannels = 1, wf_sampwidth = 2, wf_framerate = 16000, wf_framesize = 2\<rparr>"
    by (simp add: read_fmt_chunk_def unpack_H_def unpack_L_def WAVE_FORMAT_PCM_def)
  have s: "unpack_L [16, 0, 0, 0] = 16"
    by (simp add: unpack_L_def)
  show ?thesis
    by (subst read_chunks.simps) (simp add: bytes_lit_def s f)
qed

lemma read_data:
  assumes "unpack_L [b0, b1, b2, b3] = n" and "length d = n"
  shows "read_chunks (Some f) ([100, 97, 116, 97, b0, b1, b2, b3] @ d) =
      Inr \<lparr>wr_fmt = f, wr_nframes = n div wf_framesize f, wr_data = d\<rparr>"
  by (subst read_chunks.simps) (simp add: bytes_lit_def assms)

lemma riff_header_bytes:
  "\<exists>a0 a1 a2 a3 b0 b1 b2 b3. le32 (36 + n) = [a0, a1, a2, a3] \<and> le32 n = [b0, b1, b2, b3] \<and>
     riff_header n = [82, 73, 70, 70, a0, a1, a2, a3] @ [87, 65, 86, 69] @
       [102, 109, 116, 32, 16, 0, 0, 0] @ [1, 0, 1, 0, 128, 62, 0, 0, 0, 125, 0, 0, 2, 0, 16, 0] @
       [100, 97, 116, 97, b0, b1, b2, b3]"
  by (simp add: riff_header_def le32_def le16_def bytes_lit_def)

lemma wave_open_rb_riff_header:
  assumes "36 + n < 2 ^ 32" and "length d = n"
  shows "wave_open_rb (riff_header n @ d) =
     Inr \<lparr>wr_fmt = \<lparr>wf_nchannels = 1, wf_sampwidth = 2, wf_framerate = 16000, wf_framesize = 2\<rparr>,
          wr_nframes = n div 2, wr_data = d\<rparr>"
proof -
  obtain a0 a1 a2 a3 b0 b1 b2 b3 where
    a: "le32 (36 + n) = [a0, a1, a2, a3]" and b: "le32 n = [b0, b1, b2, b3]" and
    h: "riff_header n = [82, 73, 70, 70, a0, a1, a2, a3] @ [87, 65, 86, 69] @
       [102, 109, 116, 32, 16, 0, 0, 0] @ [1, 0, 1, 0, 128, 62, 0, 0, 0, 125, 0, 0, 2, 0, 16, 0] @
       [100, 97, 116, 97, b0, b1, b2, b3]"
    using riff_header_bytes by blast
  have ua: "unpack_L [a0, a1, a2, a3] = 36 + n"
    using unpack_le32[OF assms(1)] a by simp
  have "n < 2 ^ 32" using assms(1) by simp
  then have ub: "unpack_L [b0, b1, b2, b3] = n"
    using unpack_le32[of n] b by simp
  let ?f = "\<lparr>wf_nchannels = 1, wf_sampwidth = 2, wf_framerate = 16000, wf_framesize = 2\<rparr>"
  let ?r2 = "[100, 97, 116, 97, b0, b1, b2, b3] @ d"
  let ?r1 = "[102, 109, 116, 32, 16, 0, 0, 0] @ [1, 0, 1, 0, 128, 62, 0, 0, 0, 125, 0, 0, 2, 0, 16, 0] @ ?r2"
  have l1: "length ?r1 = 32 + n" using assms(2) by simp
  have "wave_open_rb (riff_header n @ d) = wave_open_rb ([82, 73, 70, 70, a0, a1, a2, a3] @ [87, 65, 86, 69] @ ?r1)"
    unfolding h by (simp only: append_assoc)
  also have "\<dots> = read_chunks None ?r1"
    using ua l1 by (rule open_riff)
  also have "\<dots> = read_chunks (Some ?f) ?r2"
    by (rule read_fmt)
  also have "\<dots> = Inr \<lparr>wr_fmt = ?f, wr_nframes = n div wf_framesize ?f, wr_data = d\<rparr>"
    using ub assms(2) by (rule read_data)
  finally show ?thesis by simp
qed

lemma wav_bytes_to_audio_riff_header:
  assumes "36 + 2 * length a < 2 ^ 32"
  shows "wav_bytes_to_audio (riff_header (2 * length a) @ tobytes a) = Inr a"
  unfolding wav_bytes_to_audio_def
  by (simp add: wave_open_rb_riff_header[OF assms length_tobytes] bindE_def readframes_def
        frombuffer_int16_def length_tobytes samples_of_tobytes)

text \<open>
  C1 (as amended). Encoding a sample sequence with \<^verbatim>\<open>audio_to_wav_bytes\<close> succeeds, and
  reading the bytes back gives one channel, two bytes a sample, 16000 frames a second, as
  many frames as there were samples, and the sequence again, whenever the RIFF length
  field can hold the data: 36 bytes of header fields plus two bytes per sample must stay
  below \<open>2 ^ 32\<close>.
\<close>

theorem wav_round_trip:
  assumes "36 + 2 * length audio < 2 ^ 32"
  shows "\<exists>wav. audio_to_wav_bytes audio = Inr wav \<and>
           wave_open_rb wav =
             Inr \<lparr>wr_fmt = \<lparr>wf_nchannels = 1, wf_sampwidth = 2, wf_framerate = 16000, wf_framesize = 2\<rparr>,
                  wr_nframes = length audio, wr_data = tobytes audio\<rparr> \<and>
           wav_bytes_to_audio wav = Inr audio"
proof (intro exI conjI)
  show "audio_to_wav_bytes audio = Inr (riff_header (2 * length audio) @ tobytes audio)"
    using assms by (rule audio_to_wav_bytes_ok)
  show "wave_open_rb (riff_header (2 * length audio) @ tobytes audio) =
             Inr \<lparr>wr_fmt = \<lparr>wf_nchannels = 1, wf_sampwidth = 2, wf_framerate = 16000, wf_framesize = 2\<rparr>,
                  wr_nframes = length audio, wr_data = tobytes audio\<rparr>"
    by (simp add: wave_open_rb_riff_header[OF assms length_tobytes])
  show "wav_bytes_to_audio (riff_header (2 * length audio) @ tobytes audio) = Inr audio"
    using assms by (rule wav_bytes_to_audio_riff_header)
qed

theorem wav_round_trip_witness:
  "36 + 2 * length [513, 1027 :: int16] < (2::nat) ^ 32 \<and>
   audio_to_wav_bytes [513, 1027] =
     Inr [82, 73, 70, 70, 40, 0, 0, 0, 87, 65, 86, 69, 102, 109, 116, 32, 16, 0, 0, 0, 1, 0, 1, 0,
          128, 62, 0, 0, 0, 125, 0, 0, 2, 0, 16, 0, 100, 97, 116, 97, 4, 0, 0, 0, 1, 2, 3, 4] \<and>
   wav_bytes_to_audio
     [82, 73, 70, 70, 40, 0, 0, 0, 87, 65, 86, 69, 102, 109, 116, 32, 16, 0, 0, 0, 1, 0, 1, 0,
      128, 62, 0, 0, 0, 125, 0, 0, 2, 0, 16, 0, 100, 97, 116, 97, 4, 0, 0, 0, 1, 2, 3, 4] = Inr [513, 1027]"
proof -
  have b: "36 + 2 * length [513, 1027 :: int16] < (2::nat) ^ 32" by simp
  have tb: "tobytes [513, 1027] = [1, 2, 3, 4]"
    by (simp add: tobytes_def sample_bytes_def)
  have hd: "riff_header 4 = [82, 73, 70, 70, 40, 0, 0, 0, 87, 65, 86, 69, 102, 109, 116, 32, 16, 0, 0,
      0, 1, 0, 1, 0, 128, 62, 0, 0, 0, 125, 0, 0, 2, 0, 16, 0, 100, 97, 116, 97, 4, 0, 0, 0]"
    by (simp add: riff_header_def le32_def le16_def bytes_lit_def)
  have e: "audio_to_wav_bytes [513, 1027] =
     Inr [82, 73, 70, 70, 40, 0, 0, 0, 87, 65, 86, 69, 102, 109, 116, 32, 16, 0, 0, 0, 1, 0, 1, 0,
          128, 62, 0, 0, 0, 125, 0, 0, 2, 0, 16, 0, 100, 97, 116, 97, 4, 0, 0, 0, 1, 2, 3, 4]"
    using audio_to_wav_bytes_ok[OF b] by (simp add: tb hd)
  from wav_round_trip[OF b] obtain wav where
    "audio_to_wav_bytes [513, 1027] = Inr wav" and "wav_bytes_to_audio wav = Inr [513, 1027]"
    by blast
  with e have "wav_bytes_to_audio
     [82, 73, 70, 70, 40, 0, 0, 0, 87, 65, 86, 69, 102, 109, 116, 32, 16, 0, 0, 0, 1, 0, 1, 0,
      128, 62, 0, 0, 0, 125, 0, 0, 2, 0, 16, 0, 100, 97, 116, 97, 4, 0, 0, 0, 1, 2, 3, 4] = Inr [513, 1027]"
    by simp
  with b e show ?thesis by (intro conjI)
qed

text \<open>
  A non-empty sequence of \<open>2 ^ 31 - 18\<close> samples is not encoded at all: the first length
  field of the header would have to hold \<open>2 ^ 32\<close>, and \<^verbatim>\<open>struct.pack\<close> raises.
\<close>

theorem wav_round_trip_counterexample:
  "replicate 2147483630 (0::int16) \<noteq> [] \<and>
   audio_to_wav_bytes (replicate 2147483630 0) =
     Inl (struct_error ([39] @ ascii ''L'' @ [39] @ ascii '' format requires 0 <= number <= 4294967295'')) \<and>
   bindE (audio_to_wav_bytes (replicate 2147483630 0)) wav_bytes_to_audio \<noteq> Inr (replicate 2147483630 0)"
proof -
  have len: "length (replicate 2147483630 (0::int16)) = 2147483630"
    by (rule length_replicate)
  have "\<not> 36 + 2 * length (replicate 2147483630 (0::int16)) < 2 ^ 32"
    unfolding len by simp
  then have e: "audio_to_wav_bytes (replicate 2147483630 0) =
     Inl (struct_error ([39] @ ascii ''L'' @ [39] @ ascii '' format requires 0 <= number <= 4294967295''))"
    by (rule audio_to_wav_bytes_overflow)
  have ne: "replicate 2147483630 (0::int16) \<noteq> []"
    by (simp only: replicate_empty)
  have "bindE (audio_to_wav_bytes (replicate 2147483630 0)) wav_bytes_to_audio \<noteq> Inr (replicate 2147483630 0)"
    by (simp only: e bindE_def sum.case sum.distinct not_False_eq_True)
  with e ne show ?thesis by (simp only: simp_thms)
qed

section \<open>The server's handler\<close>

lemma tmp_name_nonempty: "tmp_name dir name suffix \<noteq> []"
  by (simp add: tmp_name_def ascii_def)

lemma unlink_missing_ok: "p \<notin> dom (sv_files st) \<Longrightarrow> unlink windows True p st = Inr st"
  by (simp add: unlink_def)

lemma unlink_not_refused:
  assumes "\<not> (windows \<and> in_use st p)"
  shows "unlink windows True p st = Inr (st\<lparr>sv_files := (sv_files st)(p := None)\<rparr>)"
proof (cases "p \<in> dom (sv_files st)")
  case True
  with assms show ?thesis by (simp add: unlink_def)
next
  case False
  then have "(sv_files st)(p := None) = sv_files st"
    by (simp add: fun_upd_idem_iff domIff)
  with False show ?thesis by (simp add: unlink_def)
qed

lemma unlink_refused:
  assumes "windows" and "in_use st p" and "p \<in> dom (sv_files st)"
  shows "unlink windows missing_ok p st = Inl (sharing_violation p)"
  using assms by (simp add: unlink_def)

lemma close_fd_only: "close_fd fd \<lparr>sv_files = fs, sv_open = [(fd, p)]\<rparr> = \<lparr>sv_files = fs, sv_open = []\<rparr>"
  by (simp add: close_fd_def)

lemma server_try_tmp_path:
  assumes "mkstemp env (upload_suffix env audio) = Inr (fd, dir, name)"
  shows "fst (snd (server_try ops env audio fs)) = Some (tmp_name dir name (upload_suffix env audio))"
  using assms
  by (simp add: server_try_def Let_def split: sum.splits option.splits prod.splits)

lemma server_try_no_tmp_path:
  assumes "mkstemp env (upload_suffix env audio) = Inl e"
  shows "server_try ops env audio fs = (\<lparr>sv_files = fs, sv_open = []\<rparr>, None, Inl e)"
  using assms by (simp add: server_try_def Let_def)

text \<open>
  Where the \<^verbatim>\<open>try\<close> body leaves the descriptor open: exactly when the read of the upload
  or \<^verbatim>\<open>open\<close> raises.
\<close>

lemma server_try_read_raises:
  assumes "mkstemp env (upload_suffix env audio) = Inr (fd, dir, name)"
      and "upload_read env = Inl e"
  shows "server_try ops env audio fs =
     (\<lparr>sv_files = fs(tmp_name dir name (upload_suffix env audio) \<mapsto> []),
       sv_open = [(fd, tmp_name dir name (upload_suffix env audio))]\<rparr>,
      Some (tmp_name dir name (upload_suffix env audio)), Inl e)"
  using assms by (simp add: server_try_def Let_def)

lemma server_try_open_raises:
  assumes "mkstemp env (upload_suffix env audio) = Inr (fd, dir, name)"
      and "upload_read env = Inr content"
      and "tmp_open_error env = Some e"
  shows "server_try ops env audio fs =
     (\<lparr>sv_files = fs(tmp_name dir name (upload_suffix env audio) \<mapsto> []),
       sv_open = [(fd, tmp_name dir name (upload_suffix env audio))]\<rparr>,
      Some (tmp_name dir name (upload_suffix env audio)), Inl e)"
  using assms by (simp add: server_try_def Let_def)

lemma server_try_model_raises:
  assumes "mkstemp env (upload_suffix env audio) = Inr (fd, dir, name)"
      and "upload_read env = Inr content"
      and "tmp_open_error env = None"
      and "tmp_write_error env = None"
      and "model_transcribe env (fs(tmp_name dir name (upload_suffix env audio) \<mapsto> content))
             (tmp_name dir name (upload_suffix env audio)) 5 = (fs3, Inl e)"
  shows "server_try ops env audio fs =
     (\<lparr>sv_files = fs3, sv_open = []\<rparr>, Some (tmp_name dir name (upload_suffix env audio)), Inl e)"
  using assms by (simp add: server_try_def Let_def close_fd_def)

lemma server_try_closed:
  assumes "upload_read env = Inr content" and "tmp_open_error env = None"
  shows "sv_open (fst (server_try ops env audio fs)) = []"
  using assms
  by (simp add: server_try_def Let_def close_fd_def split: sum.splits option.splits prod.splits)

lemma server_try_left_open:
  "left_open (fst (server_try ops env audio fs)) (fst (snd (server_try ops env audio fs))) \<longleftrightarrow>
     (\<exists>fd dir name. mkstemp env (upload_suffix env audio) = Inr (fd, dir, name)) \<and>
     ((\<exists>e. upload_read env = Inl e) \<or> (\<exists>e. tmp_open_error env = Some e))"
  by (auto simp add: server_try_def Let_def close_fd_def left_open_def in_use_def
        split: sum.splits option.splits prod.splits)

text \<open>The \<^verbatim>\<open>finally\<close> clause, when the delete goes through and when Windows refuses it.\<close>

lemma transcribe_handler_finally:
  assumes "server_try ops env audio fs = (st, Some p, r)" and "p \<noteq> []"
      and "\<not> (os_windows env \<and> in_use st p)"
  shows "transcribe_handler ops env audio fs =
           (st\<lparr>sv_files := (sv_files st)(p := None)\<rparr>, except_Exception r)"
  using assms(1,2) unlink_not_refused[OF assms(3)]
  by (simp add: transcribe_handler_def)

lemma transcribe_handler_refused:
  assumes "server_try ops env audio fs = (st, Some p, r)" and "p \<noteq> []"
      and "os_windows env" and "in_use st p" and "p \<in> dom (sv_files st)"
  shows "transcribe_handler ops env audio fs = (st, Propagated (sharing_violation p))"
  using assms(1,2) unlink_refused[OF assms(3,4,5), of True]
  by (simp add: transcribe_handler_def)

text \<open>
  On every way out of the \<^verbatim>\<open>try\<close> body on which the descriptor has been closed, and on
  every way out on a host other than Windows, the temporary file is gone when the handler
  is left, and the \<^verbatim>\<open>finally\<close> clause adds no exception of its own.
\<close>

lemma temp_file_removed_unless_in_use:
  assumes "mkstemp env (upload_suffix env audio) = Inr (fd, dir, name)"
      and "\<not> (os_windows env \<and>
              left_open (fst (server_try ops env audio fs)) (fst (snd (server_try ops env audio fs))))"
  shows "tmp_name dir name (upload_suffix env audio) \<notin> dom (sv_files (fst (transcribe_handler ops env audio fs))) \<and>
         snd (transcribe_handler ops env audio fs) = except_Exception (snd (snd (server_try ops env audio fs)))"
proof -
  let ?p = "tmp_name dir name (upload_suffix env audio)"
  obtain st tp r where t: "server_try ops env audio fs = (st, tp, r)"
    by (cases "server_try ops env audio fs") auto
  have "tp = Some ?p"
    using server_try_tmp_path[OF assms(1), of ops fs] t by simp
  with t have t': "server_try ops env audio fs = (st, Some ?p, r)" by simp
  have "\<not> (os_windows env \<and> in_use st ?p)"
    using assms(2) t' by (simp add: left_open_def)
  with t' tmp_name_nonempty
  have "transcribe_handler ops env audio fs = (st\<lparr>sv_files := (sv_files st)(?p := None)\<rparr>, except_Exception r)"
    by (rule transcribe_handler_finally)
  then show ?thesis
    by (simp add: t)
qed

text \<open>
  On the Windows host, when the read of the upload or \<^verbatim>\<open>open\<close> raises, whatever the class
  of the exception: the delete is refused, the file stays with the descriptor open on it,
  and the \<^verbatim>\<open>PermissionError\<close> is what leaves the handler.
\<close>

lemma temp_file_stays_in_use:
  assumes "mkstemp env (upload_suffix env audio) = Inr (fd, dir, name)"
      and "os_windows env"
      and "upload_read env = Inl e \<or> (upload_read env = Inr content \<and> tmp_open_error env = Some e)"
  shows "transcribe_handler ops env audio fs =
     (\<lparr>sv_files = fs(tmp_name dir name (upload_suffix env audio) \<mapsto> []),
       sv_open = [(fd, tmp_name dir name (upload_suffix env audio))]\<rparr>,
      Propagated (sharing_violation (tmp_name dir name (upload_suffix env audio))))"
proof -
  let ?p = "tmp_name dir name (upload_suffix env audio)"
  let ?st = "\<lparr>sv_files = fs(?p \<mapsto> []), sv_open = [(fd, ?p)]\<rparr>"
  have t: "server_try ops env audio fs = (?st, Some ?p, Inl e)"
    using assms(3) server_try_read_raises[OF assms(1)] server_try_open_raises[OF assms(1)]
    by auto
  have "in_use ?st ?p" by (simp add: in_use_def)
  moreover have "?p \<in> dom (sv_files ?st)" by simp
  ultimately show ?thesis
    using transcribe_handler_refused[OF t tmp_name_nonempty assms(2)] by simp
qed

lemma example_tmp_name:
  "tmp_name example_tmp_dir (ascii ''k3x9'') (ascii ''.wav'') = example_tmp_path"
  by (simp add: tmp_name_def example_tmp_path_def ascii_def)

lemma example_upload_suffix:
  "path_suffix env = (\<lambda>f. ascii ''.wav'') \<Longrightarrow> upload_suffix env example_upload = ascii ''.wav''"
  by (simp add: upload_suffix_def example_upload_def)

text \<open>
  C2, at the input where the code departs from it. On the Windows host a request whose
  upload cannot be read (\<^verbatim>\<open>await audio.read()\<close> raises \<^verbatim>\<open>MemoryError\<close>) leaves the \<^verbatim>\<open>try\<close>
  body with the descriptor of \<^verbatim>\<open>mkstemp\<close> open. The delete of the \<^verbatim>\<open>finally\<close> clause raises
  \<^verbatim>\<open>PermissionError\<close>: the temporary file exists after the handler is left, still empty and
  still open, and the \<^verbatim>\<open>PermissionError\<close> leaves the handler in place of the
  \<^verbatim>\<open>HTTPException\<close>.
\<close>

theorem temp_file_stays_when_read_raises:
  "os_windows example_server_env_read_raises \<and>
   server_try example_ops example_server_env_read_raises example_upload Map.empty =
     (\<lparr>sv_files = [example_tmp_path \<mapsto> []], sv_open = [(3, example_tmp_path)]\<rparr>,
      Some example_tmp_path, Inl (OtherException (ascii ''MemoryError'') [])) \<and>
   transcribe_handler example_ops example_server_env_read_raises example_upload Map.empty =
     (\<lparr>sv_files = [example_tmp_path \<mapsto> []], sv_open = [(3, example_tmp_path)]\<rparr>,
      Propagated (sharing_violation example_tmp_path)) \<and>
   example_tmp_path \<in>
     dom (sv_files (fst (transcribe_handler example_ops example_server_env_read_raises example_upload Map.empty))) \<and>
   http_response (snd (transcribe_handler example_ops example_server_env_read_raises example_upload Map.empty)) = None"
proof -
  have s: "upload_suffix example_server_env_read_raises example_upload = ascii ''.wav''"
    by (rule example_upload_suffix) (simp add: example_server_env_read_raises_def example_server_env_def)
  have w: "os_windows example_server_env_read_raises"
    by (simp add: example_server_env_read_raises_def example_server_env_def)
  have t: "server_try example_ops example_server_env_read_raises example_upload Map.empty =
     (\<lparr>sv_files = [example_tmp_path \<mapsto> []], sv_open = [(3, example_tmp_path)]\<rparr>,
      Some example_tmp_path, Inl (OtherException (ascii ''MemoryError'') []))"
  proof -
    have m: "mkstemp example_server_env_read_raises (upload_suffix example_server_env_read_raises example_upload)
        = Inr (3, example_tmp_dir, ascii ''k3x9'')"
      by (simp add: example_server_env_read_raises_def example_server_env_def)
    have r: "upload_read example_server_env_read_raises = Inl (OtherException (ascii ''MemoryError'') [])"
      by (simp add: example_server_env_read_raises_def example_server_env_def)
    show ?thesis
      using server_try_read_raises[OF m r, of example_ops Map.empty]
      by (simp add: s example_tmp_name)
  qed
  have p: "example_tmp_path \<noteq> []"
    by (simp add: example_tmp_path_def example_tmp_dir_def ascii_def)
  have h: "transcribe_handler example_ops example_server_env_read_raises example_upload Map.empty =
     (\<lparr>sv_files = [example_tmp_path \<mapsto> []], sv_open = [(3, example_tmp_path)]\<rparr>,
      Propagated (sharing_violation example_tmp_path))"
    by (rule transcribe_handler_refused[OF t p w]) (simp_all add: in_use_def)
  show ?thesis
    by (simp add: w t h)
qed

lemma server_try_success:
  assumes "mkstemp env (upload_suffix env audio) = Inr (fd, dir, name)"
      and "upload_read env = Inr content"
      and "tmp_open_error env = None"
      and "tmp_write_error env = None"
      and "model_transcribe env (fs(tmp_name dir name (upload_suffix env audio) \<mapsto> content))
             (tmp_name dir name (upload_suffix env audio)) 5 = (fs3, Inr ((segments, None), info))"
  shows "server_try ops env audio fs =
     (\<lparr>sv_files = fs3, sv_open = []\<rparr>, Some (tmp_name dir name (upload_suffix env audio)),
      Inr \<lparr>tj_text = py_join (ascii '' '') (map (\<lambda>segment. py_strip (seg_text segment)) segments),
           tj_language = info_language info,
           tj_duration = fl_round ops (info_duration info) 2\<rparr>)"
  using assms by (simp add: server_try_def Let_def close_fd_def)

text \<open>
  C4. When every step of a request succeeds, the handler returns the segments' stripped
  texts joined by single spaces, the language the model detected and the model's duration
  rounded by \<^verbatim>\<open>round(_, 2)\<close>, and the response has status 200.
\<close>

theorem transcribe_success:
  assumes "mkstemp env (upload_suffix env audio) = Inr (fd, dir, name)"
      and "upload_read env = Inr content"
      and "tmp_open_error env = None"
      and "tmp_write_error env = None"
      and "model_transcribe env (fs(tmp_name dir name (upload_suffix env audio) \<mapsto> content))
             (tmp_name dir name (upload_suffix env audio)) 5 = (fs3, Inr ((segments, None), info))"
  shows "http_response (snd (transcribe_handler ops env audio fs)) =
     Some (200, TranscriptBody
       \<lparr>tj_text = py_join (ascii '' '') (map (\<lambda>segment. py_strip (seg_text segment)) segments),
        tj_language = info_language info,
        tj_duration = fl_round ops (info_duration info) 2\<rparr>)"
proof -
  let ?p = "tmp_name dir name (upload_suffix env audio)"
  let ?st = "\<lparr>sv_files = fs3, sv_open = []\<rparr>"
  have "\<not> (os_windows env \<and> in_use ?st ?p)"
    by (simp add: in_use_def)
  with server_try_success[OF assms] tmp_name_nonempty
  have "transcribe_handler ops env audio fs =
      (?st\<lparr>sv_files := (sv_files ?st)(?p := None)\<rparr>,
       except_Exception (Inr \<lparr>tj_text = py_join (ascii '' '') (map (\<lambda>segment. py_strip (seg_text segment)) segments),
           tj_language = info_language info,
           tj_duration = fl_round ops (info_duration info) 2\<rparr>))"
    by (rule transcribe_handler_finally)
  then show ?thesis
    by (simp add: except_Exception_def)
qed

theorem transcribe_success_witness:
  "mkstemp example_server_env (upload_suffix example_server_env example_upload)
     = Inr (3, example_tmp_dir, ascii ''k3x9'') \<and>
   upload_read example_server_env = Inr [82, 73, 70, 70] \<and>
   tmp_open_error example_server_env = None \<and>
   tmp_write_error example_server_env = None \<and>
   tmp_name example_tmp_dir (ascii ''k3x9'') (upload_suffix example_server_env example_upload) = example_tmp_path \<and>
   model_transcribe example_server_env [example_tmp_path \<mapsto> [82, 73, 70, 70]] example_tmp_path 5 =
     ([example_tmp_path \<mapsto> [82, 73, 70, 70]],
      Inr (([\<lparr>seg_text = ascii '' hello''\<rparr>, \<lparr>seg_text = ascii '' world ''\<rparr>], None),
           \<lparr>info_language = ascii ''en'', info_duration = 2514 / 1000\<rparr>)) \<and>
   http_response (snd (transcribe_handler example_ops example_server_env example_upload Map.empty)) =
     Some (200, TranscriptBody \<lparr>tj_text = ascii ''hello world'', tj_language = ascii ''en'', tj_duration = 251 / 100\<rparr>)"
proof -
  have s: "upload_suffix example_server_env example_upload = ascii ''.wav''"
    by (rule example_upload_suffix) (simp add: example_server_env_def)
  have m: "mkstemp example_server_env (upload_suffix example_server_env example_upload)
     = Inr (3, example_tmp_dir, ascii ''k3x9'')"
    by (simp add: example_server_env_def)
  have r: "upload_read example_server_env = Inr [82, 73, 70, 70]"
    by (simp add: example_server_env_def)
  have o: "tmp_open_error example_server_env = None"
    by (simp add: example_server_env_def)
  have w: "tmp_write_error example_server_env = None"
    by (simp add: example_server_env_def)
  have n: "tmp_name example_tmp_dir (ascii ''k3x9'') (upload_suffix example_server_env example_upload) = example_tmp_path"
    by (simp add: s example_tmp_name)
  have t: "model_transcribe example_server_env [example_tmp_path \<mapsto> [82, 73, 70, 70]] example_tmp_path 5 =
     ([example_tmp_path \<mapsto> [82, 73, 70, 70]],
      Inr (([\<lparr>seg_text = ascii '' hello''\<rparr>, \<lparr>seg_text = ascii '' world ''\<rparr>], None),
           \<lparr>info_language = ascii ''en'', info_duration = 2514 / 1000\<rparr>))"
    by (simp add: example_server_env_def)
  have t': "model_transcribe example_server_env
       (Map.empty(tmp_name example_tmp_dir (ascii ''k3x9'') (upload_suffix example_server_env example_upload) \<mapsto> [82, 73, 70, 70]))
       (tmp_name example_tmp_dir (ascii ''k3x9'') (upload_suffix example_server_env example_upload)) 5 =
     ([example_tmp_path \<mapsto> [82, 73, 70, 70]],
      Inr (([\<lparr>seg_text = ascii '' hello''\<rparr>, \<lparr>seg_text = ascii '' world ''\<rparr>], None),
           \<lparr>info_language = ascii ''en'', info_duration = 2514 / 1000\<rparr>))"
    by (simp only: n t)
  have "http_response (snd (transcribe_handler example_ops example_server_env example_upload Map.empty)) =
     Some (200, TranscriptBody
       \<lparr>tj_text = py_join (ascii '' '') (map (\<lambda>segment. py_strip (seg_text segment))
                     [\<lparr>seg_text = ascii '' hello''\<rparr>, \<lparr>seg_text = ascii '' world ''\<rparr>]),
        tj_language = info_language \<lparr>info_language = ascii ''en'', info_duration = 2514 / 1000\<rparr>,
        tj_duration = fl_round example_ops (info_duration \<lparr>info_language = ascii ''en'', info_duration = 2514 / 1000\<rparr>) 2\<rparr>)"
    using transcribe_success[OF m r o w t'] .
  then have "http_response (snd (transcribe_handler example_ops example_server_env example_upload Map.empty)) =
     Some (200, TranscriptBody \<lparr>tj_text = ascii ''hello world'', tj_language = ascii ''en'', tj_duration = 251 / 100\<rparr>)"
    by (simp add: example_ops_def ascii_def py_strip_def py_isspace_def decimal_round_def Let_def)
  with m r o w n t show ?thesis
    by (intro conjI)
qed

text \<open>
  C6 (as amended). An exception that the \<^verbatim>\<open>try\<close> body raises and that is an instance of
  \<^verbatim>\<open>Exception\<close> becomes a response with status 500 whose \<^verbatim>\<open>detail\<close> is \<^verbatim>\<open>str(e)\<close>, and the
  temporary file, if one was created, is gone, on every request except those that leave
  the descriptor open on the Windows host. The body leaves it closed when the exception
  comes from \<^verbatim>\<open>mkstemp\<close>, from the write, from the model call or from the segment generator
  (\<^verbatim>\<open>server_try_left_open\<close>).
\<close>

theorem exception_to_500:
  assumes "server_try ops env audio fs = (st, tmp_path, Inl e)"
      and "is_Exception e"
      and "\<not> (os_windows env \<and> left_open st tmp_path)"
  shows "snd (transcribe_handler ops env audio fs) = HTTPException 500 (exn_str e) \<and>
         http_response (snd (transcribe_handler ops env audio fs)) = Some (500, DetailBody (exn_str e)) \<and>
         (case tmp_path of
            None \<Rightarrow> True
          | Some p \<Rightarrow> p \<notin> dom (sv_files (fst (transcribe_handler ops env audio fs))))"
proof (cases tmp_path)
  case None
  with assms(1,2) show ?thesis
    by (simp add: transcribe_handler_def except_Exception_def)
next
  case (Some p)
  have t: "server_try ops env audio fs = (st, Some p, Inl e)"
    using assms(1) Some by simp
  have n: "\<not> (os_windows env \<and> in_use st p)"
    using assms(3) Some by (simp add: left_open_def)
  have p: "p \<noteq> []"
  proof (cases "mkstemp env (upload_suffix env audio)")
    case (Inl e')
    from server_try_no_tmp_path[OF this, of ops fs] t show ?thesis by simp
  next
    case (Inr x)
    obtain fd dir name where "x = (fd, dir, name)" by (cases x) auto
    with Inr have "mkstemp env (upload_suffix env audio) = Inr (fd, dir, name)" by simp
    from server_try_tmp_path[OF this, of ops fs] t
    have "p = tmp_name dir name (upload_suffix env audio)" by simp
    then show ?thesis by (simp add: tmp_name_nonempty)
  qed
  have "transcribe_handler ops env audio fs =
          (st\<lparr>sv_files := (sv_files st)(p := None)\<rparr>, except_Exception (Inl e))"
    using t p n by (rule transcribe_handler_finally)
  with assms(2) Some show ?thesis
    by (simp add: except_Exception_def)
qed

theorem exception_to_500_witness:
  "server_try example_ops example_server_env_model_raises example_upload Map.empty =
     (\<lparr>sv_files = [example_tmp_path \<mapsto> [82, 73, 70, 70]], sv_open = []\<rparr>, Some example_tmp_path,
      Inl (OtherException (ascii ''RuntimeError'') (ascii ''CUDA out of memory''))) \<and>
   is_Exception (OtherException (ascii ''RuntimeError'') (ascii ''CUDA out of memory'')) \<and>
   \<not> (os_windows example_server_env_model_raises \<and>
      left_open \<lparr>sv_files = [example_tmp_path \<mapsto> [82, 73, 70, 70]], sv_open = []\<rparr> (Some example_tmp_path)) \<and>
   os_windows example_server_env_model_raises \<and>
   http_response (snd (transcribe_handler example_ops example_server_env_model_raises example_upload Map.empty)) =
     Some (500, DetailBody (ascii ''CUDA out of memory'')) \<and>
   example_tmp_path \<notin>
     dom (sv_files (fst (transcribe_handler example_ops example_server_env_model_raises example_upload Map.empty)))"
proof -
  have s: "upload_suffix example_server_env_model_raises example_upload = ascii ''.wav''"
    by (rule example_upload_suffix) (simp add: example_server_env_model_raises_def example_server_env_def)
  have t: "server_try example_ops example_server_env_model_raises example_upload Map.empty =
     (\<lparr>sv_files = [example_tmp_path \<mapsto> [82, 73, 70, 70]], sv_open = []\<rparr>, Some example_tmp_path,
      Inl (OtherException (ascii ''RuntimeError'') (ascii ''CUDA out of memory'')))"
  proof -
    have m: "mkstemp example_server_env_model_raises (upload_suffix example_server_env_model_raises example_upload)
        = Inr (3, example_tmp_dir, ascii ''k3x9'')"
      by (simp add: example_server_env_model_raises_def example_server_env_def)
    have r: "upload_read example_server_env_model_raises = Inr [82, 73, 70, 70]"
      by (simp add: example_server_env_model_raises_def example_server_env_def)
    have o: "tmp_open_error example_server_env_model_raises = None"
      by (simp add: example_server_env_model_raises_def example_server_env_def)
    have w: "tmp_write_error example_server_env_model_raises = None"
      by (simp add: example_server_env_model_raises_def example_server_env_def)
    have c: "model_transcribe example_server_env_model_raises
        (Map.empty(tmp_name example_tmp_dir (ascii ''k3x9'')
                     (upload_suffix example_server_env_model_raises example_upload) \<mapsto> [82, 73, 70, 70]))
        (tmp_name example_tmp_dir (ascii ''k3x9'') (upload_suffix example_server_env_model_raises example_upload)) 5 =
        ([example_tmp_path \<mapsto> [82, 73, 70, 70]],
         Inl (OtherException (ascii ''RuntimeError'') (ascii ''CUDA out of memory'')))"
      unfolding s example_tmp_name
      by (simp add: example_server_env_model_raises_def example_server_env_def)
    show ?thesis
      using server_try_model_raises[OF m r o w c, of example_ops]
      by (simp add: s example_tmp_name)
  qed
  have i: "is_Exception (OtherException (ascii ''RuntimeError'') (ascii ''CUDA out of memory''))"
    by simp
  have l: "\<not> (os_windows example_server_env_model_raises \<and>
      left_open \<lparr>sv_files = [example_tmp_path \<mapsto> [82, 73, 70, 70]], sv_open = []\<rparr> (Some example_tmp_path))"
    by (simp add: left_open_def in_use_def)
  have w: "os_windows example_server_env_model_raises"
    by (simp add: example_server_env_model_raises_def example_server_env_def)
  have "http_response (snd (transcribe_handler example_ops example_server_env_model_raises example_upload Map.empty)) =
     Some (500, DetailBody (ascii ''CUDA out of memory'')) \<and>
   example_tmp_path \<notin>
     dom (sv_files (fst (transcribe_handler example_ops example_server_env_model_raises example_upload Map.empty)))"
    using exception_to_500[OF t i l] by simp
  with t i l w show ?thesis
    by (intro conjI) simp_all
qed

text \<open>
  A request cancelled while the upload is read: the exception is no instance of
  \<^verbatim>\<open>Exception\<close> and the \<^verbatim>\<open>except\<close> clause does not convert it. On a host that deletes the
  file it leaves the handler as it is; on the Windows host the \<^verbatim>\<open>PermissionError\<close> of the
  \<^verbatim>\<open>finally\<close> clause leaves the handler. In neither case is a 500 response made of it.
\<close>

theorem exception_to_500_counterexample:
  "snd (snd (server_try example_ops example_server_env_cancelled_elsewhere example_upload Map.empty)) =
     Inl (BaseExceptionOnly (ascii ''asyncio.CancelledError'') []) \<and>
   snd (transcribe_handler example_ops example_server_env_cancelled_elsewhere example_upload Map.empty) =
     Propagated (BaseExceptionOnly (ascii ''asyncio.CancelledError'') []) \<and>
   http_response (snd (transcribe_handler example_ops example_server_env_cancelled_elsewhere example_upload Map.empty)) \<noteq>
     Some (500, DetailBody (exn_str (BaseExceptionOnly (ascii ''asyncio.CancelledError'') []))) \<and>
   snd (snd (server_try example_ops example_server_env_cancelled example_upload Map.empty)) =
     Inl (BaseExceptionOnly (ascii ''asyncio.CancelledError'') []) \<and>
   snd (transcribe_handler example_ops example_server_env_cancelled example_upload Map.empty) =
     Propagated (sharing_violation example_tmp_path) \<and>
   http_response (snd (transcribe_handler example_ops example_server_env_cancelled example_upload Map.empty)) \<noteq>
     Some (500, DetailBody (exn_str (BaseExceptionOnly (ascii ''asyncio.CancelledError'') [])))"
proof -
  let ?st = "\<lparr>sv_files = [example_tmp_path \<mapsto> []], sv_open = [(3, example_tmp_path)]\<rparr>"
  let ?e = "BaseExceptionOnly (ascii ''asyncio.CancelledError'') []"
  have p: "example_tmp_path \<noteq> []"
    by (simp add: example_tmp_path_def example_tmp_dir_def ascii_def)
  have s1: "upload_suffix example_server_env_cancelled_elsewhere example_upload = ascii ''.wav''"
    by (rule example_upload_suffix)
       (simp add: example_server_env_cancelled_elsewhere_def example_server_env_cancelled_def example_server_env_def)
  have t1: "server_try example_ops example_server_env_cancelled_elsewhere example_upload Map.empty =
      (?st, Some example_tmp_path, Inl ?e)"
  proof -
    have m: "mkstemp example_server_env_cancelled_elsewhere
          (upload_suffix example_server_env_cancelled_elsewhere example_upload)
        = Inr (3, example_tmp_dir, ascii ''k3x9'')"
      by (simp add: example_server_env_cancelled_elsewhere_def example_server_env_cancelled_def
            example_server_env_def)
    have r: "upload_read example_server_env_cancelled_elsewhere = Inl ?e"
      by (simp add: example_server_env_cancelled_elsewhere_def example_server_env_cancelled_def
            example_server_env_def)
    show ?thesis
      using server_try_read_raises[OF m r, of example_ops Map.empty]
      by (simp add: s1 example_tmp_name)
  qed
  have "\<not> (os_windows example_server_env_cancelled_elsewhere \<and> in_use ?st example_tmp_path)"
    by (simp add: example_server_env_cancelled_elsewhere_def)
  with t1 p have h1: "transcribe_handler example_ops example_server_env_cancelled_elsewhere example_upload Map.empty =
      (?st\<lparr>sv_files := (sv_files ?st)(example_tmp_path := None)\<rparr>, except_Exception (Inl ?e))"
    by (rule transcribe_handler_finally)
  have s2: "upload_suffix example_server_env_cancelled example_upload = ascii ''.wav''"
    by (rule example_upload_suffix) (simp add: example_server_env_cancelled_def example_server_env_def)
  have t2: "server_try example_ops example_server_env_cancelled example_upload Map.empty =
      (?st, Some example_tmp_path, Inl ?e)"
  proof -
    have m: "mkstemp example_server_env_cancelled (upload_suffix example_server_env_cancelled example_upload)
        = Inr (3, example_tmp_dir, ascii ''k3x9'')"
      by (simp add: example_server_env_cancelled_def example_server_env_def)
    have r: "upload_read example_server_env_cancelled = Inl ?e"
      by (simp add: example_server_env_cancelled_def example_server_env_def)
    show ?thesis
      using server_try_read_raises[OF m r, of example_ops Map.empty]
      by (simp add: s2 example_tmp_name)
  qed
  have w2: "os_windows example_server_env_cancelled"
    by (simp add: example_server_env_cancelled_def example_server_env_def)
  have h2: "transcribe_handler example_ops example_server_env_cancelled example_upload Map.empty =
      (?st, Propagated (sharing_violation example_tmp_path))"
    by (rule transcribe_handler_refused[OF t2 p w2]) (simp_all add: in_use_def)
  show ?thesis
    by (simp add: t1 h1 t2 h2 except_Exception_def)
qed

section \<open>The client's loop\<close>

lemma save_notes_ok:
  assumes "fs_mkdir_error env = None" and "fs_write_error env = None"
  shows "save_notes ops env formatted transcript duration w =
     (w\<lparr>out := out w @ [Mkdir OBSIDIAN_VAULT,
                         WriteText (note_path (clock env)) (note_content ops (clock env) formatted transcript duration)],
        files := (files w)(note_path (clock env) \<mapsto> note_content ops (clock env) formatted transcript duration)\<rparr>,
      Inr (note_path (clock env)))"
  using assms
  by (simp add: save_notes_def bindIO_def mkdir_def write_text_def liftE_def emit_def Let_def note_path_def)

lemma try_body_to_preview:
  assumes "whisper_post env wav = Inr result"
      and "result (ascii ''text'') = Some (JStr t)"
      and "result (ascii ''language'') = Some language"
      and "result (ascii ''duration'') = Some duration"
  shows "try_body ops env wav w =
     bindIO (format_notes ops env (JStr t)) (\<lambda>formatted.
       bindIO (save_notes ops env formatted (JStr t) duration) (\<lambda>filepath.
         print (ascii ''  Saved to: '' @ path_str filepath)))
       (w\<lparr>out := out w @
          [Print (ascii ''  Transcribing...''),
           Post WHISPER_URL (FileUpload (ascii ''audio'') (ascii ''recording.wav'') wav (ascii ''audio/wav'')) 300,
           Print (ascii ''\<newline>  Transcript ('' @ py_str ops language @ ascii '', '' @ py_str ops duration @ ascii ''s):''),
           Print (preview (take 200 t) (length t))]\<rparr>)"
  using assms
  by (simp add: try_body_def transcribe_def bindIO_def liftE_def print_def emit_def getitem_def
        split: prod.splits sum.splits)

lemma try_body_ok:
  assumes "whisper_post env wav = Inr result"
      and "result (ascii ''text'') = Some (JStr t)"
      and "result (ascii ''language'') = Some language"
      and "result (ascii ''duration'') = Some duration"
      and "ollama_post env (MEETING_PROMPT t) = Inr answer"
      and "answer (ascii ''response'') = Some formatted"
      and "fs_mkdir_error env = None" and "fs_write_error env = None"
  shows "try_body ops env wav w =
     (w\<lparr>out := out w @
          [Print (ascii ''  Transcribing...''),
           Post WHISPER_URL (FileUpload (ascii ''audio'') (ascii ''recording.wav'') wav (ascii ''audio/wav'')) 300,
           Print (ascii ''\<newline>  Transcript ('' @ py_str ops language @ ascii '', '' @ py_str ops duration @ ascii ''s):''),
           Print (preview (take 200 t) (length t)),
           Print (ascii ''  Formatting notes with LLM...''),
           Post OLLAMA_URL (JsonBody OLLAMA_MODEL (MEETING_PROMPT t) False) 120,
           Mkdir OBSIDIAN_VAULT,
           WriteText (note_path (clock env)) (note_content ops (clock env) formatted (JStr t) duration),
           Print (ascii ''  Saved to: '' @ path_str (note_path (clock env)))],
        files := (files w)(note_path (clock env) \<mapsto> note_content ops (clock env) formatted (JStr t) duration)\<rparr>,
      Inr ())"
  unfolding try_body_to_preview[OF assms(1-4)]
  using assms(5-8)
  by (simp add: format_notes_def bindIO_def liftE_def print_def emit_def getitem_def save_notes_ok)


lemma before_try_ok:
  assumes "prompt_input env = Inr line"
      and "py_lower (py_strip line) \<noteq> ascii ''q''"
      and "capture env = Inr frames"
      and "concat frames \<noteq> []"
      and "audio_to_wav_bytes (concat frames) = Inr wav"
  shows "before_try ops env w0 =
     (w0\<lparr>out := out w0 @
         [Print (ascii ''\<newline>  Press Enter to start recording (or '' @ [39] @ ascii ''q'' @ [39] @ ascii '' to quit):''),
          Input (ascii ''  > ''),
          Print (ascii ''\<newline>  Recording... press Enter to stop.\<newline>''),
          Print (ascii ''  Captured '' @
                 fl_str ops (fl_round ops (fl_truediv ops (int (length (concat frames))) (int SAMPLE_RATE)) 1) @
                 ascii ''s of audio.'')]\<rparr>,
      Inr wav)"
proof -
  have "frames \<noteq> []" using assms(4) by auto
  then show ?thesis
    using assms
    by (simp add: before_try_def record_audio_def bindIO_def liftE_def print_def emit_def Let_def)
qed

lemma iteration_ok:
  assumes "before_try ops env w0 = (w, Inr wav)"
      and "whisper_post env wav = Inr result"
      and "result (ascii ''text'') = Some (JStr t)"
      and "result (ascii ''language'') = Some language"
      and "result (ascii ''duration'') = Some duration"
      and "ollama_post env (MEETING_PROMPT t) = Inr answer"
      and "answer (ascii ''response'') = Some formatted"
      and "fs_mkdir_error env = None" and "fs_write_error env = None"
  shows "iteration ops env w0 =
     (w\<lparr>out := out w @
          [Print (ascii ''  Transcribing...''),
           Post WHISPER_URL (FileUpload (ascii ''audio'') (ascii ''recording.wav'') wav (ascii ''audio/wav'')) 300,
           Print (ascii ''\<newline>  Transcript ('' @ py_str ops language @ ascii '', '' @ py_str ops duration @ ascii ''s):''),
           Print (preview (take 200 t) (length t)),
           Print (ascii ''  Formatting notes with LLM...''),
           Post OLLAMA_URL (JsonBody OLLAMA_MODEL (MEETING_PROMPT t) False) 120,
           Mkdir OBSIDIAN_VAULT,
           WriteText (note_path (clock env)) (note_content ops (clock env) formatted (JStr t) duration),
           Print (ascii ''  Saved to: '' @ path_str (note_path (clock env)))],
        files := (files w)(note_path (clock env) \<mapsto> note_content ops (clock env) formatted (JStr t) duration)\<rparr>,
      Continue)"
  by (simp add: iteration_def assms(1) try_except_def try_body_ok[OF assms(2-9)])

text \<open>
  C8. When a pass of the loop completes, the note file holds the text generation service's
  response as it came, then the rule and the collapsible section whose body is the
  transcript as it came.
\<close>

theorem note_holds_response_and_transcript:
  assumes "before_try ops env w0 = (w, Inr wav)"
      and "whisper_post env wav = Inr result"
      and "result (ascii ''text'') = Some (JStr t)"
      and "result (ascii ''language'') = Some language"
      and "result (ascii ''duration'') = Some duration"
      and "ollama_post env (MEETING_PROMPT t) = Inr answer"
      and "answer (ascii ''response'') = Some (JStr formatted)"
      and "fs_mkdir_error env = None" and "fs_write_error env = None"
  shows "files (fst (iteration ops env w0)) (note_path (clock env)) =
     Some (ascii ''# Meeting Notes - '' @ strftime_heading (clock env) @ ascii ''\<newline>\<newline>'' @
           ascii ''> Duration: '' @ py_str ops duration @ ascii ''s | Transcribed with Whisper + llama3.1\<newline>\<newline>'' @
           formatted @
           ascii ''\<newline>\<newline>---\<newline>\<newline><details>\<newline><summary>Raw Transcript</summary>\<newline>\<newline>'' @
           t @
           ascii ''\<newline>\<newline></details>\<newline>'')"
  by (simp add: iteration_ok[OF assms] note_content_def ascii_def)

lemma example_before_try:
  "before_try example_ops example_env empty_world = (example_at_try, Inr example_wav)"
proof -
  have enc: "audio_to_wav_bytes [513, 1027, - 5] = Inr example_wav"
    using audio_to_wav_bytes_ok[of "[513, 1027, - 5]"] by (simp add: example_wav_def)
  have "before_try example_ops example_env empty_world =
     (empty_world\<lparr>out := out empty_world @
         [Print (ascii ''\<newline>  Press Enter to start recording (or '' @ [39] @ ascii ''q'' @ [39] @ ascii '' to quit):''),
          Input (ascii ''  > ''),
          Print (ascii ''\<newline>  Recording... press Enter to stop.\<newline>''),
          Print (ascii ''  Captured '' @
                 fl_str example_ops (fl_round example_ops (fl_truediv example_ops
                    (int (length (concat [[513, 1027], [- 5 :: int16]]))) (int SAMPLE_RATE)) 1) @
                 ascii ''s of audio.'')]\<rparr>,
      Inr example_wav)"
    by (rule before_try_ok[where line = "[]" and frames = "[[513, 1027], [- 5]]"])
       (simp_all add: example_env_def enc py_strip_def py_lower_def ascii_def)
  moreover have "fl_str example_ops (fl_round example_ops (fl_truediv example_ops
                    (int (length (concat [[513, 1027], [- 5 :: int16]]))) (int SAMPLE_RATE)) 1) = ascii ''0.0''"
    by (simp add: example_ops_def decimal_round_def decimal_str_def SAMPLE_RATE_def Let_def str_nat.simps ascii_def)
  ultimately show ?thesis
    by (simp add: example_at_try_def empty_world_def ascii_def)
qed

theorem note_holds_response_and_transcript_witness:
  "before_try example_ops example_env empty_world = (example_at_try, Inr example_wav) \<and>
   whisper_post example_env example_wav = Inr example_result \<and>
   example_result (ascii ''text'') = Some (JStr (ascii ''hello'')) \<and>
   example_result (ascii ''language'') = Some (JStr (ascii ''en'')) \<and>
   example_result (ascii ''duration'') = Some (JFloat (251 / 100)) \<and>
   ollama_post example_env (MEETING_PROMPT (ascii ''hello'')) =
     Inr [ascii ''response'' \<mapsto> JStr (ascii ''## Key Points\<newline>- x'')] \<and>
   [ascii ''response'' \<mapsto> JStr (ascii ''## Key Points\<newline>- x'')] (ascii ''response'') =
     Some (JStr (ascii ''## Key Points\<newline>- x'')) \<and>
   fs_mkdir_error example_env = None \<and> fs_write_error example_env = None \<and>
   files (fst (iteration example_ops example_env empty_world))
     (OBSIDIAN_VAULT @ [ascii ''2024-03-05-0907-meeting-notes.md'']) =
     Some (ascii ''# Meeting Notes - 2024-03-05 09:07\<newline>\<newline>'' @
           ascii ''> Duration: 2.51s | Transcribed with Whisper + llama3.1\<newline>\<newline>'' @
           ascii ''## Key Points\<newline>- x'' @
           ascii ''\<newline>\<newline>---\<newline>\<newline><details>\<newline><summary>Raw Transcript</summary>\<newline>\<newline>'' @
           ascii ''hello'' @
           ascii ''\<newline>\<newline></details>\<newline>'')"
proof -
  have e: "example_result (ascii ''text'') = Some (JStr (ascii ''hello''))"
    "example_result (ascii ''language'') = Some (JStr (ascii ''en''))"
    "example_result (ascii ''duration'') = Some (JFloat (251 / 100))"
    by (simp_all add: example_result_def ascii_def)
  have p: "note_path (clock example_env) = OBSIDIAN_VAULT @ [ascii ''2024-03-05-0907-meeting-notes.md'']"
    by (simp add: note_path_def path_div_def strftime_filename_def example_env_def zfill_def str_nat.simps ascii_def)
  have h: "strftime_heading (clock example_env) = ascii ''2024-03-05 09:07''"
    by (simp add: strftime_heading_def example_env_def zfill_def str_nat.simps ascii_def)
  have d: "fl_str example_ops (251 / 100) = ascii ''2.51''"
    by (simp add: example_ops_def decimal_str_def Let_def str_nat.simps ascii_def)
  have o: "ollama_post example_env (MEETING_PROMPT (ascii ''hello'')) =
     Inr [ascii ''response'' \<mapsto> JStr (ascii ''## Key Points\<newline>- x'')]"
    by (simp add: example_env_def)
  have w: "whisper_post example_env example_wav = Inr example_result"
    by (simp add: example_env_def)
  have f: "fs_mkdir_error example_env = None" "fs_write_error example_env = None"
    by (simp_all add: example_env_def)
  have r: "[ascii ''response'' \<mapsto> JStr (ascii ''## Key Points\<newline>- x'')] (ascii ''response'') =
     Some (JStr (ascii ''## Key Points\<newline>- x''))"
    by simp
  note t = note_holds_response_and_transcript[OF example_before_try w e o r f]
  have c: "files (fst (iteration example_ops example_env empty_world))
     (OBSIDIAN_VAULT @ [ascii ''2024-03-05-0907-meeting-notes.md'']) =
     Some (ascii ''# Meeting Notes - 2024-03-05 09:07\<newline>\<newline>'' @
           ascii ''> Duration: 2.51s | Transcribed with Whisper + llama3.1\<newline>\<newline>'' @
           ascii ''## Key Points\<newline>- x'' @
           ascii ''\<newline>\<newline>---\<newline>\<newline><details>\<newline><summary>Raw Transcript</summary>\<newline>\<newline>'' @
           ascii ''hello'' @
           ascii ''\<newline>\<newline></details>\<newline>'')"
    using t by (simp add: p h d ascii_def)
  show ?thesis
    using example_before_try w e o r f c by (intro conjI)
qed

subsection \<open>The preview\<close>

lemma except_clauses_keeps: "ev \<in> set (out w) \<Longrightarrow> ev \<in> set (out (fst (except_clauses e w)))"
  by (cases e) (simp_all add: emit_def)

lemma after_preview_keeps:
  assumes "ev \<in> set (out w)"
  shows "ev \<in> set (out (fst (bindIO (format_notes ops env transcript) (\<lambda>formatted.
           bindIO (save_notes ops env formatted transcript duration) (\<lambda>filepath.
             print (ascii ''  Saved to: '' @ path_str filepath))) w)))"
  using assms
  by (simp add: format_notes_def save_notes_def mkdir_def write_text_def bindIO_def liftE_def print_def
        emit_def getitem_def Let_def split: sum.splits option.splits prod.splits)

lemma preview_printed:
  assumes "before_try ops env w0 = (w, Inr wav)"
      and "whisper_post env wav = Inr result"
      and "result (ascii ''text'') = Some (JStr t)"
      and "result (ascii ''language'') = Some language"
      and "result (ascii ''duration'') = Some duration"
  shows "Print (preview (take 200 t) (length t)) \<in> set (out (fst (iteration ops env w0)))"
proof -
  let ?w4 = "w\<lparr>out := out w @
          [Print (ascii ''  Transcribing...''),
           Post WHISPER_URL (FileUpload (ascii ''audio'') (ascii ''recording.wav'') wav (ascii ''audio/wav'')) 300,
           Print (ascii ''\<newline>  Transcript ('' @ py_str ops language @ ascii '', '' @ py_str ops duration @ ascii ''s):''),
           Print (preview (take 200 t) (length t))]\<rparr>"
  have "Print (preview (take 200 t) (length t)) \<in> set (out ?w4)" by simp
  then have b: "Print (preview (take 200 t) (length t)) \<in> set (out (fst (try_body ops env wav w)))"
    unfolding try_body_to_preview[OF assms(2-5)] by (rule after_preview_keeps)
  show ?thesis
  proof (cases "try_body ops env wav w")
    case (Pair w' r)
    with b have "Print (preview (take 200 t) (length t)) \<in> set (out w')" by simp
    with Pair show ?thesis
      by (cases r) (simp_all add: iteration_def assms(1) try_except_def except_clauses_keeps)
  qed
qed

text \<open>
  C5. Of a transcript longer than 200 code points the console shows the first 200 and
  then the three dots; a transcript of at most 200 it shows whole. When the pass
  completes, the section of the note file holds the transcript whole in either case.
\<close>

theorem preview_truncates_note_does_not:
  assumes "before_try ops env w0 = (w, Inr wav)"
      and "whisper_post env wav = Inr result"
      and "result (ascii ''text'') = Some (JStr t)"
      and "result (ascii ''language'') = Some language"
      and "result (ascii ''duration'') = Some duration"
  shows "(200 < length t \<longrightarrow>
            Print (ascii ''  '' @ take 200 t @ ascii ''...'' @ ascii ''\<newline>'') \<in> set (out (fst (iteration ops env w0)))) \<and>
         (length t \<le> 200 \<longrightarrow>
            Print (ascii ''  '' @ t @ ascii ''\<newline>'') \<in> set (out (fst (iteration ops env w0)))) \<and>
         (\<forall>answer formatted.
            ollama_post env (MEETING_PROMPT t) = Inr answer \<and> answer (ascii ''response'') = Some formatted \<and>
            fs_mkdir_error env = None \<and> fs_write_error env = None \<longrightarrow>
            files (fst (iteration ops env w0)) (note_path (clock env)) =
              Some (ascii ''# Meeting Notes - '' @ strftime_heading (clock env) @ ascii ''\<newline>\<newline>'' @
                    ascii ''> Duration: '' @ py_str ops duration @ ascii ''s | Transcribed with Whisper + llama3.1\<newline>\<newline>'' @
                    py_str ops formatted @
                    ascii ''\<newline>\<newline>---\<newline>\<newline><details>\<newline><summary>Raw Transcript</summary>\<newline>\<newline>'' @
                    t @
                    ascii ''\<newline>\<newline></details>\<newline>''))"
proof (intro conjI impI allI)
  assume "200 < length t"
  with preview_printed[OF assms]
  show "Print (ascii ''  '' @ take 200 t @ ascii ''...'' @ ascii ''\<newline>'') \<in> set (out (fst (iteration ops env w0)))"
    by (simp add: preview_def)
next
  assume "length t \<le> 200"
  with preview_printed[OF assms]
  show "Print (ascii ''  '' @ t @ ascii ''\<newline>'') \<in> set (out (fst (iteration ops env w0)))"
    by (simp add: preview_def)
next
  fix answer formatted
  assume a: "ollama_post env (MEETING_PROMPT t) = Inr answer \<and> answer (ascii ''response'') = Some formatted \<and>
            fs_mkdir_error env = None \<and> fs_write_error env = None"
  then have o: "ollama_post env (MEETING_PROMPT t) = Inr answer"
    and r: "answer (ascii ''response'') = Some formatted"
    and f: "fs_mkdir_error env = None" "fs_write_error env = None"
    by simp_all
  note iteration_ok[OF assms o r f]
  then show "files (fst (iteration ops env w0)) (note_path (clock env)) =
              Some (ascii ''# Meeting Notes - '' @ strftime_heading (clock env) @ ascii ''\<newline>\<newline>'' @
                    ascii ''> Duration: '' @ py_str ops duration @ ascii ''s | Transcribed with Whisper + llama3.1\<newline>\<newline>'' @
                    py_str ops formatted @
                    ascii ''\<newline>\<newline>---\<newline>\<newline><details>\<newline><summary>Raw Transcript</summary>\<newline>\<newline>'' @
                    t @
                    ascii ''\<newline>\<newline></details>\<newline>'')"
    by (simp add: note_content_def ascii_def)
qed


lemma before_try_cong:
  assumes "prompt_input env' = prompt_input env" and "capture env' = capture env"
  shows "before_try ops env' w = before_try ops env w"
proof -
  have r: "record_audio env' = record_audio env"
    by (simp add: record_audio_def assms(2))
  show ?thesis
    unfolding before_try_def assms(1) r by (rule refl)
qed

lemma example_before_try_long:
  "before_try example_ops example_env_long empty_world = (example_at_try, Inr example_wav)"
proof -
  have "before_try example_ops example_env_long empty_world = before_try example_ops example_env empty_world"
    by (rule before_try_cong) (simp_all add: example_env_long_def)
  then show ?thesis by (simp add: example_before_try)
qed

theorem preview_truncates_note_does_not_witness:
  "before_try example_ops example_env_long empty_world = (example_at_try, Inr example_wav) \<and>
   whisper_post example_env_long example_wav = Inr (example_result(ascii ''text'' \<mapsto> JStr (replicate 201 97))) \<and>
   (example_result(ascii ''text'' \<mapsto> JStr (replicate 201 97))) (ascii ''text'') = Some (JStr (replicate 201 97)) \<and>
   (example_result(ascii ''text'' \<mapsto> JStr (replicate 201 97))) (ascii ''language'') = Some (JStr (ascii ''en'')) \<and>
   (example_result(ascii ''text'' \<mapsto> JStr (replicate 201 97))) (ascii ''duration'') = Some (JFloat (251 / 100)) \<and>
   200 < length (replicate 201 (97::nat)) \<and>
   Print (ascii ''  '' @ replicate 200 97 @ ascii ''...'' @ ascii ''\<newline>'')
      \<in> set (out (fst (iteration example_ops example_env_long empty_world))) \<and>
   files (fst (iteration example_ops example_env_long empty_world)) (note_path (clock example_env_long)) =
     Some (ascii ''# Meeting Notes - 2024-03-05 09:07\<newline>\<newline>'' @
           ascii ''> Duration: 2.51s | Transcribed with Whisper + llama3.1\<newline>\<newline>'' @
           ascii ''## Key Points\<newline>- x'' @
           ascii ''\<newline>\<newline>---\<newline>\<newline><details>\<newline><summary>Raw Transcript</summary>\<newline>\<newline>'' @
           replicate 201 97 @
           ascii ''\<newline>\<newline></details>\<newline>'')"
proof -
  let ?r = "example_result(ascii ''text'' \<mapsto> JStr (replicate 201 97))"
  have w: "whisper_post example_env_long example_wav = Inr ?r"
    by (simp add: example_env_long_def)
  have e: "?r (ascii ''text'') = Some (JStr (replicate 201 97))"
    "?r (ascii ''language'') = Some (JStr (ascii ''en''))"
    "?r (ascii ''duration'') = Some (JFloat (251 / 100))"
    by (simp_all add: example_result_def ascii_def)
  note t = preview_truncates_note_does_not[OF example_before_try_long w e]
  have len: "200 < length (replicate 201 (97::nat))" by simp
  have tk: "take 200 (replicate 201 (97::nat)) = replicate 200 97" by simp
  have p: "Print (ascii ''  '' @ replicate 200 97 @ ascii ''...'' @ ascii ''\<newline>'')
      \<in> set (out (fst (iteration example_ops example_env_long empty_world)))"
    using t len unfolding tk by blast
  have h: "strftime_heading (clock example_env_long) = ascii ''2024-03-05 09:07''"
    by (simp add: strftime_heading_def example_env_long_def example_env_def zfill_def str_nat.simps ascii_def)
  have d: "fl_str example_ops (251 / 100) = ascii ''2.51''"
    by (simp add: example_ops_def decimal_str_def Let_def str_nat.simps ascii_def)
  have o: "ollama_post example_env_long (MEETING_PROMPT (replicate 201 97)) =
            Inr [ascii ''response'' \<mapsto> JStr (ascii ''## Key Points\<newline>- x'')] \<and>
          [ascii ''response'' \<mapsto> JStr (ascii ''## Key Points\<newline>- x'')] (ascii ''response'') =
            Some (JStr (ascii ''## Key Points\<newline>- x'')) \<and>
          fs_mkdir_error example_env_long = None \<and> fs_write_error example_env_long = None"
    by (simp add: example_env_long_def example_env_def)
  from t have "\<forall>answer formatted.
            ollama_post example_env_long (MEETING_PROMPT (replicate 201 97)) = Inr answer \<and>
            answer (ascii ''response'') = Some formatted \<and>
            fs_mkdir_error example_env_long = None \<and> fs_write_error example_env_long = None \<longrightarrow>
            files (fst (iteration example_ops example_env_long empty_world)) (note_path (clock example_env_long)) =
              Some (ascii ''# Meeting Notes - '' @ strftime_heading (clock example_env_long) @ ascii ''\<newline>\<newline>'' @
                    ascii ''> Duration: '' @ py_str example_ops (JFloat (251 / 100)) @ ascii ''s | Transcribed with Whisper + llama3.1\<newline>\<newline>'' @
                    py_str example_ops formatted @
                    ascii ''\<newline>\<newline>---\<newline>\<newline><details>\<newline><summary>Raw Transcript</summary>\<newline>\<newline>'' @
                    replicate 201 97 @
                    ascii ''\<newline>\<newline></details>\<newline>'')"
    by blast
  from this[rule_format, OF o]
  have c: "files (fst (iteration example_ops example_env_long empty_world)) (note_path (clock example_env_long)) =
     Some (ascii ''# Meeting Notes - 2024-03-05 09:07\<newline>\<newline>'' @
           ascii ''> Duration: 2.51s | Transcribed with Whisper + llama3.1\<newline>\<newline>'' @
           ascii ''## Key Points\<newline>- x'' @
           ascii ''\<newline>\<newline>---\<newline>\<newline><details>\<newline><summary>Raw Transcript</summary>\<newline>\<newline>'' @
           replicate 201 97 @
           ascii ''\<newline>\<newline></details>\<newline>'')"
    by (simp only: h d py_str.simps append_assoc) (simp add: ascii_def)
  show ?thesis
    using example_before_try_long w e len p c by (intro conjI)
qed

subsection \<open>The note's path and its duration line\<close>

lemma note_path_same_minute:
  assumes "dt_year b = dt_year a" and "dt_month b = dt_month a" and "dt_day b = dt_day a"
      and "dt_hour b = dt_hour a" and "dt_minute b = dt_minute a"
  shows "note_path b = note_path a"
  using assms by (simp add: note_path_def strftime_filename_def)

text \<open>
  C9. The note is written to the vault directory under the name made of the clock's year,
  month, day, hour and minute and \<^verbatim>\<open>-meeting-notes.md\<close>; seconds do not enter it. A second
  note saved in the same minute, the files being as the first save left them, gets the
  same path, the write succeeds, and the file then holds the second note: no other file
  has appeared.
\<close>

theorem note_path_minute_precision:
  assumes "fs_mkdir_error env1 = None" and "fs_write_error env1 = None"
      and "fs_mkdir_error env2 = None" and "fs_write_error env2 = None"
      and "dt_year (clock env2) = dt_year (clock env1)" and "dt_month (clock env2) = dt_month (clock env1)"
      and "dt_day (clock env2) = dt_day (clock env1)" and "dt_hour (clock env2) = dt_hour (clock env1)"
      and "dt_minute (clock env2) = dt_minute (clock env1)"
      and "files w2 = files (fst (save_notes ops env1 f1 t1 d1 w))"
  shows "snd (save_notes ops env1 f1 t1 d1 w) =
           Inr (OBSIDIAN_VAULT @
                [zfill 4 (str_nat (dt_year (clock env1))) @ ascii ''-'' @
                 zfill 2 (str_nat (dt_month (clock env1))) @ ascii ''-'' @
                 zfill 2 (str_nat (dt_day (clock env1))) @ ascii ''-'' @
                 zfill 2 (str_nat (dt_hour (clock env1))) @
                 zfill 2 (str_nat (dt_minute (clock env1))) @ ascii ''-meeting-notes.md'']) \<and>
         files (fst (save_notes ops env1 f1 t1 d1 w)) (note_path (clock env1)) =
           Some (note_content ops (clock env1) f1 t1 d1) \<and>
         snd (save_notes ops env2 f2 t2 d2 w2) = snd (save_notes ops env1 f1 t1 d1 w) \<and>
         files (fst (save_notes ops env2 f2 t2 d2 w2)) (note_path (clock env1)) =
           Some (note_content ops (clock env2) f2 t2 d2) \<and>
         dom (files (fst (save_notes ops env2 f2 t2 d2 w2))) = insert (note_path (clock env1)) (dom (files w))"
proof -
  have p: "note_path (clock env2) = note_path (clock env1)"
    using assms(5-9) by (rule note_path_same_minute)
  have n: "note_path (clock env1) = OBSIDIAN_VAULT @
                [zfill 4 (str_nat (dt_year (clock env1))) @ ascii ''-'' @
                 zfill 2 (str_nat (dt_month (clock env1))) @ ascii ''-'' @
                 zfill 2 (str_nat (dt_day (clock env1))) @ ascii ''-'' @
                 zfill 2 (str_nat (dt_hour (clock env1))) @
                 zfill 2 (str_nat (dt_minute (clock env1))) @ ascii ''-meeting-notes.md'']"
    by (simp add: note_path_def path_div_def strftime_filename_def)
  have f: "files w2 = (files w)(note_path (clock env1) \<mapsto> note_content ops (clock env1) f1 t1 d1)"
    using assms(10) by (simp add: save_notes_ok[OF assms(1,2)])
  show ?thesis
    unfolding n[symmetric]
    by (simp add: save_notes_ok[OF assms(1,2)] save_notes_ok[OF assms(3,4)] p f)
qed

theorem note_path_minute_precision_witness:
  "fs_mkdir_error example_env = None \<and> fs_write_error example_env = None \<and>
   fs_mkdir_error example_env_later = None \<and> fs_write_error example_env_later = None \<and>
   dt_year (clock example_env_later) = dt_year (clock example_env) \<and>
   dt_month (clock example_env_later) = dt_month (clock example_env) \<and>
   dt_day (clock example_env_later) = dt_day (clock example_env) \<and>
   dt_hour (clock example_env_later) = dt_hour (clock example_env) \<and>
   dt_minute (clock example_env_later) = dt_minute (clock example_env) \<and>
   dt_second (clock example_env_later) \<noteq> dt_second (clock example_env) \<and>
   files (emit (Print (ascii ''  Saved to: '')) (fst (save_notes example_ops example_env
       (JStr (ascii ''## Key Points\<newline>- x'')) (JStr (ascii ''hello'')) (JFloat (251 / 100)) empty_world))) =
     files (fst (save_notes example_ops example_env
       (JStr (ascii ''## Key Points\<newline>- x'')) (JStr (ascii ''hello'')) (JFloat (251 / 100)) empty_world)) \<and>
   snd (save_notes example_ops example_env (JStr (ascii ''## Key Points\<newline>- x'')) (JStr (ascii ''hello'')) (JFloat (251 / 100)) empty_world) =
     Inr (OBSIDIAN_VAULT @ [ascii ''2024-03-05-0907-meeting-notes.md'']) \<and>
   snd (save_notes example_ops example_env_later (JStr (ascii ''## Notes\<newline>- y'')) (JStr (ascii ''bye'')) (JFloat (5 / 2))
          (emit (Print (ascii ''  Saved to: '')) (fst (save_notes example_ops example_env
             (JStr (ascii ''## Key Points\<newline>- x'')) (JStr (ascii ''hello'')) (JFloat (251 / 100)) empty_world)))) =
     Inr (OBSIDIAN_VAULT @ [ascii ''2024-03-05-0907-meeting-notes.md'']) \<and>
   files (fst (save_notes example_ops example_env_later (JStr (ascii ''## Notes\<newline>- y'')) (JStr (ascii ''bye'')) (JFloat (5 / 2))
          (emit (Print (ascii ''  Saved to: '')) (fst (save_notes example_ops example_env
             (JStr (ascii ''## Key Points\<newline>- x'')) (JStr (ascii ''hello'')) (JFloat (251 / 100)) empty_world)))))
      (OBSIDIAN_VAULT @ [ascii ''2024-03-05-0907-meeting-notes.md'']) =
     Some (note_content example_ops (clock example_env_later) (JStr (ascii ''## Notes\<newline>- y'')) (JStr (ascii ''bye'')) (JFloat (5 / 2))) \<and>
   dom (files (fst (save_notes example_ops example_env_later (JStr (ascii ''## Notes\<newline>- y'')) (JStr (ascii ''bye'')) (JFloat (5 / 2))
          (emit (Print (ascii ''  Saved to: '')) (fst (save_notes example_ops example_env
             (JStr (ascii ''## Key Points\<newline>- x'')) (JStr (ascii ''hello'')) (JFloat (251 / 100)) empty_world)))))) =
     {OBSIDIAN_VAULT @ [ascii ''2024-03-05-0907-meeting-notes.md'']}"
proof -
  let ?w1 = "fst (save_notes example_ops example_env
       (JStr (ascii ''## Key Points\<newline>- x'')) (JStr (ascii ''hello'')) (JFloat (251 / 100)) empty_world)"
  have a: "fs_mkdir_error example_env = None" "fs_write_error example_env = None"
    "fs_mkdir_error example_env_later = None" "fs_write_error example_env_later = None"
    "dt_year (clock example_env_later) = dt_year (clock example_env)"
    "dt_month (clock example_env_later) = dt_month (clock example_env)"
    "dt_day (clock example_env_later) = dt_day (clock example_env)"
    "dt_hour (clock example_env_later) = dt_hour (clock example_env)"
    "dt_minute (clock example_env_later) = dt_minute (clock example_env)"
    by (simp_all add: example_env_later_def example_env_def)
  have s: "dt_second (clock example_env_later) \<noteq> dt_second (clock example_env)"
    by (simp add: example_env_later_def example_env_def)
  have g: "files (emit (Print (ascii ''  Saved to: '')) ?w1) = files ?w1"
    by (simp add: emit_def)
  have p: "note_path (clock example_env) = OBSIDIAN_VAULT @ [ascii ''2024-03-05-0907-meeting-notes.md'']"
    by (simp add: note_path_def path_div_def strftime_filename_def example_env_def zfill_def str_nat.simps ascii_def)
  have y: "zfill 4 (str_nat (dt_year (clock example_env))) @ ascii ''-'' @
                 zfill 2 (str_nat (dt_month (clock example_env))) @ ascii ''-'' @
                 zfill 2 (str_nat (dt_day (clock example_env))) @ ascii ''-'' @
                 zfill 2 (str_nat (dt_hour (clock example_env))) @
                 zfill 2 (str_nat (dt_minute (clock example_env))) @ ascii ''-meeting-notes.md'' =
           ascii ''2024-03-05-0907-meeting-notes.md''"
    by (simp add: example_env_def zfill_def str_nat.simps ascii_def)
  note t = note_path_minute_precision[OF a g, of
     "JStr (ascii ''## Notes\<newline>- y'')" "JStr (ascii ''bye'')" "JFloat (5 / 2)"]
  have e: "dom (files empty_world) = {}" by (simp add: empty_world_def)
  show ?thesis
    using a s g t unfolding p y e by simp
qed

text \<open>
  C10. In a pass that completes, the duration line of the note shows \<^verbatim>\<open>str\<close> of the
  \<^verbatim>\<open>duration\<close> field of the transcription response. The duration the client computes
  from the number of captured samples goes to the console line and nowhere else.
\<close>

theorem note_duration_is_server_reported:
  assumes "prompt_input env = Inr line"
      and "py_lower (py_strip line) \<noteq> ascii ''q''"
      and "capture env = Inr frames"
      and "concat frames \<noteq> []"
      and "audio_to_wav_bytes (concat frames) = Inr wav"
      and "whisper_post env wav = Inr result"
      and "result (ascii ''text'') = Some (JStr t)"
      and "result (ascii ''language'') = Some language"
      and "result (ascii ''duration'') = Some duration"
      and "ollama_post env (MEETING_PROMPT t) = Inr answer"
      and "answer (ascii ''response'') = Some formatted"
      and "fs_mkdir_error env = None" and "fs_write_error env = None"
  shows "files (fst (iteration ops env w0)) (note_path (clock env)) =
           Some (ascii ''# Meeting Notes - '' @ strftime_heading (clock env) @ ascii ''\<newline>\<newline>'' @
                 ascii ''> Duration: '' @ py_str ops duration @ ascii ''s | Transcribed with Whisper + llama3.1\<newline>\<newline>'' @
                 py_str ops formatted @
                 ascii ''\<newline>\<newline>---\<newline>\<newline><details>\<newline><summary>Raw Transcript</summary>\<newline>\<newline>'' @
                 t @
                 ascii ''\<newline>\<newline></details>\<newline>'') \<and>
         out (fst (iteration ops env w0)) = out w0 @
           [Print (ascii ''\<newline>  Press Enter to start recording (or '' @ [39] @ ascii ''q'' @ [39] @ ascii '' to quit):''),
            Input (ascii ''  > ''),
            Print (ascii ''\<newline>  Recording... press Enter to stop.\<newline>''),
            Print (ascii ''  Captured '' @
                   fl_str ops (fl_round ops (fl_truediv ops (int (length (concat frames))) (int SAMPLE_RATE)) 1) @
                   ascii ''s of audio.''),
            Print (ascii ''  Transcribing...''),
            Post WHISPER_URL (FileUpload (ascii ''audio'') (ascii ''recording.wav'') wav (ascii ''audio/wav'')) 300,
            Print (ascii ''\<newline>  Transcript ('' @ py_str ops language @ ascii '', '' @ py_str ops duration @ ascii ''s):''),
            Print (preview (take 200 t) (length t)),
            Print (ascii ''  Formatting notes with LLM...''),
            Post OLLAMA_URL (JsonBody OLLAMA_MODEL (MEETING_PROMPT t) False) 120,
            Mkdir OBSIDIAN_VAULT,
            WriteText (note_path (clock env))
              (ascii ''# Meeting Notes - '' @ strftime_heading (clock env) @ ascii ''\<newline>\<newline>'' @
               ascii ''> Duration: '' @ py_str ops duration @ ascii ''s | Transcribed with Whisper + llama3.1\<newline>\<newline>'' @
               py_str ops formatted @
               ascii ''\<newline>\<newline>---\<newline>\<newline><details>\<newline><summary>Raw Transcript</summary>\<newline>\<newline>'' @
               t @
               ascii ''\<newline>\<newline></details>\<newline>''),
            Print (ascii ''  Saved to: '' @ path_str (note_path (clock env)))]"
proof -
  note b = before_try_ok[OF assms(1-5), of ops w0]
  note i = iteration_ok[OF b assms(6-13)]
  have c: "note_content ops (clock env) formatted (JStr t) duration =
      ascii ''# Meeting Notes - '' @ strftime_heading (clock env) @ ascii ''\<newline>\<newline>'' @
                 ascii ''> Duration: '' @ py_str ops duration @ ascii ''s | Transcribed with Whisper + llama3.1\<newline>\<newline>'' @
                 py_str ops formatted @
                 ascii ''\<newline>\<newline>---\<newline>\<newline><details>\<newline><summary>Raw Transcript</summary>\<newline>\<newline>'' @
                 t @
                 ascii ''\<newline>\<newline></details>\<newline>''"
    by (simp add: note_content_def ascii_def)
  show ?thesis
    unfolding i c[symmetric] by simp
qed

theorem note_duration_is_server_reported_witness:
  "prompt_input example_env = Inr [] \<and>
   py_lower (py_strip []) \<noteq> ascii ''q'' \<and>
   capture example_env = Inr [[513, 1027], [- 5]] \<and>
   concat [[513, 1027], [- 5 :: int16]] \<noteq> [] \<and>
   audio_to_wav_bytes (concat [[513, 1027], [- 5]]) = Inr example_wav \<and>
   whisper_post example_env example_wav = Inr example_result \<and>
   example_result (ascii ''text'') = Some (JStr (ascii ''hello'')) \<and>
   example_result (ascii ''language'') = Some (JStr (ascii ''en'')) \<and>
   example_result (ascii ''duration'') = Some (JFloat (251 / 100)) \<and>
   ollama_post example_env (MEETING_PROMPT (ascii ''hello'')) =
     Inr [ascii ''response'' \<mapsto> JStr (ascii ''## Key Points\<newline>- x'')] \<and>
   [ascii ''response'' \<mapsto> JStr (ascii ''## Key Points\<newline>- x'')] (ascii ''response'') =
     Some (JStr (ascii ''## Key Points\<newline>- x'')) \<and>
   fs_mkdir_error example_env = None \<and> fs_write_error example_env = None \<and>
   fl_str example_ops (fl_round example_ops (fl_truediv example_ops
      (int (length (concat [[513, 1027], [- 5 :: int16]]))) (int SAMPLE_RATE)) 1) = ascii ''0.0'' \<and>
   py_str example_ops (JFloat (251 / 100)) = ascii ''2.51'' \<and>
   files (fst (iteration example_ops example_env empty_world)) (note_path (clock example_env)) =
     Some (ascii ''# Meeting Notes - 2024-03-05 09:07\<newline>\<newline>'' @
           ascii ''> Duration: 2.51s | Transcribed with Whisper + llama3.1\<newline>\<newline>'' @
           ascii ''## Key Points\<newline>- x'' @
           ascii ''\<newline>\<newline>---\<newline>\<newline><details>\<newline><summary>Raw Transcript</summary>\<newline>\<newline>'' @
           ascii ''hello'' @
           ascii ''\<newline>\<newline></details>\<newline>'')"
proof -
  have a: "prompt_input example_env = Inr []"
    "py_lower (py_strip []) \<noteq> ascii ''q''"
    "capture example_env = Inr [[513, 1027], [- 5]]"
    "concat [[513, 1027], [- 5 :: int16]] \<noteq> []"
    by (simp_all add: example_env_def py_strip_def py_lower_def ascii_def)
  have enc: "audio_to_wav_bytes (concat [[513, 1027], [- 5]]) = Inr example_wav"
    using audio_to_wav_bytes_ok[of "[513, 1027, - 5]"] by (simp add: example_wav_def)
  have w: "whisper_post example_env example_wav = Inr example_result"
    by (simp add: example_env_def)
  have e: "example_result (ascii ''text'') = Some (JStr (ascii ''hello''))"
    "example_result (ascii ''language'') = Some (JStr (ascii ''en''))"
    "example_result (ascii ''duration'') = Some (JFloat (251 / 100))"
    by (simp_all add: example_result_def ascii_def)
  have o: "ollama_post example_env (MEETING_PROMPT (ascii ''hello'')) =
     Inr [ascii ''response'' \<mapsto> JStr (ascii ''## Key Points\<newline>- x'')]"
    by (simp add: example_env_def)
  have r: "[ascii ''response'' \<mapsto> JStr (ascii ''## Key Points\<newline>- x'')] (ascii ''response'') =
     Some (JStr (ascii ''## Key Points\<newline>- x''))"
    by simp
  have f: "fs_mkdir_error example_env = None" "fs_write_error example_env = None"
    by (simp_all add: example_env_def)
  have l: "fl_str example_ops (fl_round example_ops (fl_truediv example_ops
      (int (length (concat [[513, 1027], [- 5 :: int16]]))) (int SAMPLE_RATE)) 1) = ascii ''0.0''"
    by (simp add: example_ops_def decimal_round_def decimal_str_def SAMPLE_RATE_def Let_def str_nat.simps ascii_def)
  have d: "py_str example_ops (JFloat (251 / 100)) = ascii ''2.51''"
    by (simp add: example_ops_def decimal_str_def Let_def str_nat.simps ascii_def)
  have h: "strftime_heading (clock example_env) = ascii ''2024-03-05 09:07''"
    by (simp add: strftime_heading_def example_env_def zfill_def str_nat.simps ascii_def)
  note t = note_duration_is_server_reported[OF a enc w e o r f, of example_ops empty_world, THEN conjunct1]
  have c: "files (fst (iteration example_ops example_env empty_world)) (note_path (clock example_env)) =
     Some (ascii ''# Meeting Notes - 2024-03-05 09:07\<newline>\<newline>'' @
           ascii ''> Duration: 2.51s | Transcribed with Whisper + llama3.1\<newline>\<newline>'' @
           ascii ''## Key Points\<newline>- x'' @
           ascii ''\<newline>\<newline>---\<newline>\<newline><details>\<newline><summary>Raw Transcript</summary>\<newline>\<newline>'' @
           ascii ''hello'' @
           ascii ''\<newline>\<newline></details>\<newline>'')"
    using t unfolding d h by (simp add: ascii_def)
  show ?thesis
    using a enc w e o r f l d c by (intro conjI)
qed

subsection \<open>Captures without samples, and what is uploaded\<close>

lemma before_try_empty:
  assumes "prompt_input env = Inr line"
      and "py_lower (py_strip line) \<noteq> ascii ''q''"
      and "capture env = Inr frames"
      and "concat frames = []"
  shows "before_try ops env w0 =
     (w0\<lparr>out := out w0 @
         [Print (ascii ''\<newline>  Press Enter to start recording (or '' @ [39] @ ascii ''q'' @ [39] @ ascii '' to quit):''),
          Input (ascii ''  > ''),
          Print (ascii ''\<newline>  Recording... press Enter to stop.\<newline>''),
          Print (ascii ''  No audio captured, try again.'')]\<rparr>,
      Inl Continue)"
  using assms
  by (simp add: before_try_def record_audio_def bindIO_def liftE_def print_def emit_def Let_def)

lemma before_try_only_prints:
  "Post url payload timeout \<in> set (out (fst (before_try ops env w))) \<Longrightarrow>
   Post url payload timeout \<in> set (out w)"
  by (auto simp add: before_try_def record_audio_def bindIO_def liftE_def print_def emit_def Let_def
        split: sum.splits prod.splits if_splits)

lemma before_try_wav:
  "before_try ops env w = (w', Inr wav) \<Longrightarrow> \<exists>audio. audio \<noteq> [] \<and> audio_to_wav_bytes audio = Inr wav"
  by (auto simp add: before_try_def record_audio_def bindIO_def liftE_def print_def emit_def Let_def
        simp del: concat_eq_Nil_conv split: sum.splits prod.splits if_splits)

lemma except_clauses_only_prints:
  "Post url payload timeout \<in> set (out (fst (except_clauses e w))) \<Longrightarrow>
   Post url payload timeout \<in> set (out w)"
  by (cases e) (simp_all add: emit_def)

lemma never_emits_bindIO:
  assumes "never_emits ev m" and "\<And>x. never_emits ev (f x)"
  shows "never_emits ev (bindIO m f)"
  unfolding never_emits_def
proof (intro allI impI)
  fix w
  assume a: "ev \<in> set (out (fst (bindIO m f w)))"
  obtain w' r where m: "m w = (w', r)" by (cases "m w") auto
  show "ev \<in> set (out w)"
  proof (cases r)
    case (Inl e)
    with a m have "ev \<in> set (out (fst (m w)))" by (simp add: bindIO_def)
    with assms(1) show ?thesis by (simp add: never_emits_def)
  next
    case (Inr x)
    with a m have "ev \<in> set (out (fst (f x w')))" by (simp add: bindIO_def)
    with assms(2) have "ev \<in> set (out w')" by (simp add: never_emits_def)
    with m have "ev \<in> set (out (fst (m w)))" by simp
    with assms(1) show ?thesis by (simp add: never_emits_def)
  qed
qed

lemma never_emits_liftE: "never_emits ev (liftE r)"
  by (simp add: never_emits_def liftE_def)

lemma never_emits_print: "never_emits (Post url payload timeout) (print s)"
  by (simp add: never_emits_def print_def emit_def)

lemma never_emits_transcribe:
  "wav \<noteq> wav0 \<Longrightarrow> never_emits (Post url (FileUpload field name wav mime) timeout) (transcribe env wav0)"
  by (simp add: never_emits_def transcribe_def bindIO_def liftE_def print_def emit_def split: sum.splits)

lemma never_emits_format_notes:
  "never_emits (Post url (FileUpload field name wav mime) timeout) (format_notes ops env transcript)"
  by (simp add: never_emits_def format_notes_def bindIO_def liftE_def print_def emit_def getitem_def
        split: sum.splits option.splits)

lemma never_emits_save_notes:
  "never_emits (Post url payload timeout) (save_notes ops env formatted transcript duration)"
  by (simp add: never_emits_def save_notes_def mkdir_def write_text_def bindIO_def liftE_def emit_def Let_def
        split: option.splits)

lemma never_emits_try_body:
  assumes "wav \<noteq> wav0"
  shows "never_emits (Post url (FileUpload field name wav mime) timeout) (try_body ops env wav0)"
  unfolding try_body_def
  by (intro never_emits_bindIO never_emits_liftE never_emits_print never_emits_transcribe[OF assms]
        never_emits_format_notes never_emits_save_notes)

lemma try_except_uploads:
  assumes "Post url (FileUpload field name wav mime) timeout \<in> set (out (fst (try_except ops env wav0 w)))"
      and "wav \<noteq> wav0"
  shows "Post url (FileUpload field name wav mime) timeout \<in> set (out w)"
proof -
  obtain w' r where t: "try_body ops env wav0 w = (w', r)" by (cases "try_body ops env wav0 w") auto
  have "Post url (FileUpload field name wav mime) timeout \<in> set (out w')"
  proof (cases r)
    case (Inl e)
    with assms(1) t show ?thesis
      by (simp add: try_except_def except_clauses_only_prints)
  next
    case (Inr u)
    with assms(1) t show ?thesis by (simp add: try_except_def)
  qed
  with t have "Post url (FileUpload field name wav mime) timeout \<in> set (out (fst (try_body ops env wav0 w)))"
    by simp
  with never_emits_try_body[OF assms(2)] show ?thesis
    by (simp add: never_emits_def)
qed

lemma holds_frames_encoded:
  assumes "audio \<noteq> []" and "audio_to_wav_bytes audio = Inr wav"
  shows "holds_frames wav"
proof -
  have b: "36 + 2 * length audio < 2 ^ 32"
  proof (rule ccontr)
    assume "\<not> 36 + 2 * length audio < 2 ^ 32"
    from audio_to_wav_bytes_overflow[OF this] assms(2) show False by simp
  qed
  from audio_to_wav_bytes_ok[OF b] assms(2) have w: "wav = riff_header (2 * length audio) @ tobytes audio"
    by simp
  show ?thesis
    unfolding holds_frames_def w
    using assms(1) by (simp add: wave_open_rb_riff_header[OF b length_tobytes])
qed

lemma iteration_uploads:
  assumes "Post url (FileUpload field name wav mime) timeout \<in> set (out (fst (iteration ops env w)))"
  shows "Post url (FileUpload field name wav mime) timeout \<in> set (out w) \<or>
         (holds_frames wav \<and> (\<exists>audio. audio \<noteq> [] \<and> audio_to_wav_bytes audio = Inr wav))"
proof -
  obtain w1 r where b: "before_try ops env w = (w1, r)" by (cases "before_try ops env w") auto
  show ?thesis
  proof (cases r)
    case (Inl ended)
    with assms b have "Post url (FileUpload field name wav mime) timeout \<in> set (out (fst (before_try ops env w)))"
      by (simp add: iteration_def)
    then show ?thesis by (simp add: before_try_only_prints)
  next
    case (Inr wav0)
    with b have bw: "before_try ops env w = (w1, Inr wav0)" by simp
    show ?thesis
    proof (cases "wav = wav0")
      case True
      from before_try_wav[OF bw] obtain audio where "audio \<noteq> []" "audio_to_wav_bytes audio = Inr wav0"
        by blast
      with True show ?thesis using holds_frames_encoded by blast
    next
      case False
      from assms bw have "Post url (FileUpload field name wav mime) timeout \<in> set (out (fst (try_except ops env wav0 w1)))"
        by (simp add: iteration_def)
      from try_except_uploads[OF this False] bw
      have "Post url (FileUpload field name wav mime) timeout \<in> set (out (fst (before_try ops env w)))"
        by simp
      then show ?thesis by (simp add: before_try_only_prints)
    qed
  qed
qed

lemma main_loop_uploads:
  "Post url (FileUpload field name wav mime) timeout \<in> set (out (fst (main_loop ops envs w))) \<Longrightarrow>
   Post url (FileUpload field name wav mime) timeout \<in> set (out w) \<or>
   (holds_frames wav \<and> (\<exists>audio. audio \<noteq> [] \<and> audio_to_wav_bytes audio = Inr wav))"
proof (induction envs arbitrary: w)
  case Nil
  then show ?case by simp
next
  case (Cons env envs)
  obtain w' oc where i: "iteration ops env w = (w', oc)" by (cases "iteration ops env w") auto
  have "Post url (FileUpload field name wav mime) timeout \<in> set (out w') \<or>
        (holds_frames wav \<and> (\<exists>audio. audio \<noteq> [] \<and> audio_to_wav_bytes audio = Inr wav))"
  proof (cases oc)
    case Continue
    with Cons.prems i have "Post url (FileUpload field name wav mime) timeout \<in> set (out (fst (main_loop ops envs w')))"
      by simp
    then show ?thesis by (rule Cons.IH)
  next
    case Break
    with Cons.prems i show ?thesis by simp
  next
    case (Raised e)
    with Cons.prems i show ?thesis by simp
  qed
  then show ?case
  proof
    assume "Post url (FileUpload field name wav mime) timeout \<in> set (out w')"
    with i have "Post url (FileUpload field name wav mime) timeout \<in> set (out (fst (iteration ops env w)))"
      by simp
    then show ?thesis by (rule iteration_uploads)
  next
    assume "holds_frames wav \<and> (\<exists>audio. audio \<noteq> [] \<and> audio_to_wav_bytes audio = Inr wav)"
    then show ?thesis by simp
  qed
qed

lemma banner_only_prints:
  "Post url payload timeout \<in> set (out (banner w)) \<Longrightarrow> Post url payload timeout \<in> set (out w)"
  by (simp add: banner_def emit_def)

text \<open>
  C3. A capture that yields no sample ends the pass after the line
  \<^verbatim>\<open>No audio captured, try again.\<close>: \<^verbatim>\<open>record_audio\<close> has returned the empty array, no request
  is in the record of the pass, and the loop goes on with its next pass. And in any run of
  \<^verbatim>\<open>main\<close>, every upload to the transcription service that was not in the record before
  is the encoding of a non-empty sample sequence, a container that holds at least one frame.
\<close>

theorem empty_capture_no_request:
  assumes "prompt_input env = Inr line"
      and "py_lower (py_strip line) \<noteq> ascii ''q''"
      and "capture env = Inr frames"
      and "concat frames = []"
  shows "snd (record_audio env w) = Inr [] \<and>
         iteration ops env w0 =
           (w0\<lparr>out := out w0 @
               [Print (ascii ''\<newline>  Press Enter to start recording (or '' @ [39] @ ascii ''q'' @ [39] @ ascii '' to quit):''),
                Input (ascii ''  > ''),
                Print (ascii ''\<newline>  Recording... press Enter to stop.\<newline>''),
                Print (ascii ''  No audio captured, try again.'')]\<rparr>,
            Continue) \<and>
         main_loop ops (env # envs) w0 = main_loop ops envs (fst (iteration ops env w0)) \<and>
         (\<forall>ops' envs' w' url field name wav mime timeout.
            Post url (FileUpload field name wav mime) timeout \<in> set (out (fst (main ops' envs' w'))) \<longrightarrow>
            Post url (FileUpload field name wav mime) timeout \<in> set (out w') \<or>
            (holds_frames wav \<and> (\<exists>audio. audio \<noteq> [] \<and> audio_to_wav_bytes audio = Inr wav)))"
proof -
  have r: "snd (record_audio env w) = Inr []"
    using assms(3,4) by (simp add: record_audio_def bindIO_def liftE_def print_def)
  have i: "iteration ops env w0 =
           (w0\<lparr>out := out w0 @
               [Print (ascii ''\<newline>  Press Enter to start recording (or '' @ [39] @ ascii ''q'' @ [39] @ ascii '' to quit):''),
                Input (ascii ''  > ''),
                Print (ascii ''\<newline>  Recording... press Enter to stop.\<newline>''),
                Print (ascii ''  No audio captured, try again.'')]\<rparr>,
            Continue)"
    by (simp add: iteration_def before_try_empty[OF assms])
  have l: "main_loop ops (env # envs) w0 = main_loop ops envs (fst (iteration ops env w0))"
    by (simp add: i)
  have m: "\<forall>ops' envs' w' url field name wav mime timeout.
            Post url (FileUpload field name wav mime) timeout \<in> set (out (fst (main ops' envs' w'))) \<longrightarrow>
            Post url (FileUpload field name wav mime) timeout \<in> set (out w') \<or>
            (holds_frames wav \<and> (\<exists>audio. audio \<noteq> [] \<and> audio_to_wav_bytes audio = Inr wav))"
    unfolding main_def using main_loop_uploads banner_only_prints by blast
  from r i l m show ?thesis by (intro conjI)
qed

theorem empty_capture_no_request_witness:
  "prompt_input example_env_silent = Inr [] \<and>
   py_lower (py_strip []) \<noteq> ascii ''q'' \<and>
   capture example_env_silent = Inr [] \<and>
   concat ([] :: int16 list list) = [] \<and>
   snd (record_audio example_env_silent empty_world) = Inr [] \<and>
   iteration example_ops example_env_silent empty_world =
     (\<lparr>out = [Print (ascii ''\<newline>  Press Enter to start recording (or '' @ [39] @ ascii ''q'' @ [39] @ ascii '' to quit):''),
              Input (ascii ''  > ''),
              Print (ascii ''\<newline>  Recording... press Enter to stop.\<newline>''),
              Print (ascii ''  No audio captured, try again.'')],
       files = Map.empty\<rparr>,
      Continue)"
proof -
  have a: "prompt_input example_env_silent = Inr []"
    "py_lower (py_strip []) \<noteq> ascii ''q''"
    "capture example_env_silent = Inr []"
    "concat ([] :: int16 list list) = []"
    by (simp_all add: example_env_silent_def example_env_def py_strip_def py_lower_def ascii_def)
  note t = empty_capture_no_request[OF a, of empty_world example_ops empty_world]
  from t have r: "snd (record_audio example_env_silent empty_world) = Inr []" by blast
  from t have "iteration example_ops example_env_silent empty_world =
           (empty_world\<lparr>out := out empty_world @
               [Print (ascii ''\<newline>  Press Enter to start recording (or '' @ [39] @ ascii ''q'' @ [39] @ ascii '' to quit):''),
                Input (ascii ''  > ''),
                Print (ascii ''\<newline>  Recording... press Enter to stop.\<newline>''),
                Print (ascii ''  No audio captured, try again.'')]\<rparr>,
            Continue)" by blast
  then have i: "iteration example_ops example_env_silent empty_world =
     (\<lparr>out = [Print (ascii ''\<newline>  Press Enter to start recording (or '' @ [39] @ ascii ''q'' @ [39] @ ascii '' to quit):''),
              Input (ascii ''  > ''),
              Print (ascii ''\<newline>  Recording... press Enter to stop.\<newline>''),
              Print (ascii ''  No audio captured, try again.'')],
       files = Map.empty\<rparr>,
      Continue)"
    by (simp add: empty_world_def)
  from a r i show ?thesis by (intro conjI)
qed

subsection \<open>Exceptions in a pass of the loop\<close>

lemma try_except_caught:
  assumes "try_body ops env wav w = (w', Inl e)" and "is_Exception e"
  shows "try_except ops env wav w =
     (emit (Print (case e of
          ConnectionError m \<Rightarrow> ascii ''  ERROR: Cannot reach server. Is the Whisper server running?''
        | HTTPError m status_code text \<Rightarrow> ascii ''  ERROR: Server returned '' @ str_int status_code @ ascii '': '' @ text
        | OtherException cls m \<Rightarrow> ascii ''  ERROR: '' @ m
        | BaseExceptionOnly cls m \<Rightarrow> [])) w', Continue)"
  using assms by (cases e) (simp_all add: try_except_def)

lemma before_try_prompts:
  "\<exists>evs. out (fst (before_try ops env w)) = out w @
     [Print (ascii ''\<newline>  Press Enter to start recording (or '' @ [39] @ ascii ''q'' @ [39] @ ascii '' to quit):''),
      Input (ascii ''  > '')] @ evs"
  by (simp add: before_try_def record_audio_def bindIO_def liftE_def print_def emit_def Let_def
        split: sum.splits prod.splits)

text \<open>
  C7 (as amended). An exception that the \<^verbatim>\<open>try\<close> body of a pass raises and that is an
  instance of \<^verbatim>\<open>Exception\<close> is caught: the pass prints the line of the first matching
  \<^verbatim>\<open>except\<close> clause (a fixed line for a connection error, the status code and body for an
  HTTP error, \<^verbatim>\<open>str(e)\<close> for any other) and the loop goes on with its next pass, which
  starts by printing the prompt and reading a line.
\<close>

theorem exception_in_try_caught:
  assumes "before_try ops env w0 = (w, Inr wav)"
      and "try_body ops env wav w = (w', Inl e)"
      and "is_Exception e"
  shows "iteration ops env w0 =
           (emit (Print (case e of
                ConnectionError m \<Rightarrow> ascii ''  ERROR: Cannot reach server. Is the Whisper server running?''
              | HTTPError m status_code text \<Rightarrow> ascii ''  ERROR: Server returned '' @ str_int status_code @ ascii '': '' @ text
              | OtherException cls m \<Rightarrow> ascii ''  ERROR: '' @ m
              | BaseExceptionOnly cls m \<Rightarrow> [])) w', Continue) \<and>
         main_loop ops (env # envs) w0 = main_loop ops envs (fst (iteration ops env w0)) \<and>
         (\<exists>evs. out (fst (before_try ops env' (fst (iteration ops env w0)))) =
            out (fst (iteration ops env w0)) @
            [Print (ascii ''\<newline>  Press Enter to start recording (or '' @ [39] @ ascii ''q'' @ [39] @ ascii '' to quit):''),
             Input (ascii ''  > '')] @ evs)"
proof -
  have i: "iteration ops env w0 =
           (emit (Print (case e of
                ConnectionError m \<Rightarrow> ascii ''  ERROR: Cannot reach server. Is the Whisper server running?''
              | HTTPError m status_code text \<Rightarrow> ascii ''  ERROR: Server returned '' @ str_int status_code @ ascii '': '' @ text
              | OtherException cls m \<Rightarrow> ascii ''  ERROR: '' @ m
              | BaseExceptionOnly cls m \<Rightarrow> [])) w', Continue)"
    by (simp add: iteration_def assms(1) try_except_caught[OF assms(2,3)])
  then have l: "main_loop ops (env # envs) w0 = main_loop ops envs (fst (iteration ops env w0))"
    by simp
  from i l before_try_prompts show ?thesis by (intro conjI)
qed

lemma example_before_try_offline:
  "before_try example_ops example_env_offline empty_world = (example_at_try, Inr example_wav)"
proof -
  have "before_try example_ops example_env_offline empty_world = before_try example_ops example_env empty_world"
    by (rule before_try_cong) (simp_all add: example_env_offline_def)
  then show ?thesis by (simp add: example_before_try)
qed

theorem exception_in_try_caught_witness:
  "before_try example_ops example_env_offline empty_world = (example_at_try, Inr example_wav) \<and>
   try_body example_ops example_env_offline example_wav example_at_try =
     (example_at_try\<lparr>out := out example_at_try @
         [Print (ascii ''  Transcribing...''),
          Post WHISPER_URL (FileUpload (ascii ''audio'') (ascii ''recording.wav'') example_wav (ascii ''audio/wav'')) 300]\<rparr>,
      Inl (ConnectionError (ascii ''Connection refused''))) \<and>
   is_Exception (ConnectionError (ascii ''Connection refused'')) \<and>
   iteration example_ops example_env_offline empty_world =
     (example_at_try\<lparr>out := out example_at_try @
         [Print (ascii ''  Transcribing...''),
          Post WHISPER_URL (FileUpload (ascii ''audio'') (ascii ''recording.wav'') example_wav (ascii ''audio/wav'')) 300,
          Print (ascii ''  ERROR: Cannot reach server. Is the Whisper server running?'')]\<rparr>,
      Continue) \<and>
   main_loop example_ops [example_env_offline, example_env_silent] empty_world =
     main_loop example_ops [example_env_silent] (fst (iteration example_ops example_env_offline empty_world))"
proof -
  have b: "try_body example_ops example_env_offline example_wav example_at_try =
     (example_at_try\<lparr>out := out example_at_try @
         [Print (ascii ''  Transcribing...''),
          Post WHISPER_URL (FileUpload (ascii ''audio'') (ascii ''recording.wav'') example_wav (ascii ''audio/wav'')) 300]\<rparr>,
      Inl (ConnectionError (ascii ''Connection refused'')))"
    by (simp add: try_body_def transcribe_def bindIO_def liftE_def print_def emit_def example_env_offline_def)
  have x: "is_Exception (ConnectionError (ascii ''Connection refused''))" by simp
  note t = exception_in_try_caught[OF example_before_try_offline b x, of "[example_env_silent]"]
  from t have i: "iteration example_ops example_env_offline empty_world =
     (example_at_try\<lparr>out := out example_at_try @
         [Print (ascii ''  Transcribing...''),
          Post WHISPER_URL (FileUpload (ascii ''audio'') (ascii ''recording.wav'') example_wav (ascii ''audio/wav'')) 300,
          Print (ascii ''  ERROR: Cannot reach server. Is the Whisper server running?'')]\<rparr>,
      Continue)"
    by (simp add: emit_def)
  from t have l: "main_loop example_ops [example_env_offline, example_env_silent] empty_world =
     main_loop example_ops [example_env_silent] (fst (iteration example_ops example_env_offline empty_world))"
    by blast
  from example_before_try_offline b x i l show ?thesis by (intro conjI)
qed

text \<open>
  With no input device the stream raises while the audio is captured, outside the
  \<^verbatim>\<open>try\<close> statement: the exception is an instance of \<^verbatim>\<open>Exception\<close>, nothing catches it,
  and the loop does not reach the pass that would follow.
\<close>

theorem every_exception_caught_counterexample:
  "capture example_env_no_device =
     Inl (OtherException (ascii ''sounddevice.PortAudioError'') (ascii ''Error querying device -1'')) \<and>
   is_Exception (OtherException (ascii ''sounddevice.PortAudioError'') (ascii ''Error querying device -1'')) \<and>
   snd (iteration example_ops example_env_no_device empty_world) =
     Raised (OtherException (ascii ''sounddevice.PortAudioError'') (ascii ''Error querying device -1'')) \<and>
   snd (main example_ops [example_env_no_device, example_env] empty_world) =
     Crashed (OtherException (ascii ''sounddevice.PortAudioError'') (ascii ''Error querying device -1''))"
proof -
  have c: "capture example_env_no_device =
     Inl (OtherException (ascii ''sounddevice.PortAudioError'') (ascii ''Error querying device -1''))"
    by (simp add: example_env_no_device_def)
  have p: "prompt_input example_env_no_device = Inr []"
    by (simp add: example_env_no_device_def example_env_def)
  have q: "py_lower (py_strip []) \<noteq> ascii ''q''"
    by (simp add: py_strip_def py_lower_def ascii_def)
  have b: "\<And>w. snd (before_try example_ops example_env_no_device w) =
     Inl (Raised (OtherException (ascii ''sounddevice.PortAudioError'') (ascii ''Error querying device -1'')))"
    using q by (simp add: before_try_def record_audio_def bindIO_def liftE_def print_def Let_def c p)
  have i: "\<And>w. snd (iteration example_ops example_env_no_device w) =
     Raised (OtherException (ascii ''sounddevice.PortAudioError'') (ascii ''Error querying device -1''))"
  proof -
    fix w
    show "snd (iteration example_ops example_env_no_device w) =
     Raised (OtherException (ascii ''sounddevice.PortAudioError'') (ascii ''Error querying device -1''))"
      using b[of w] by (cases "before_try example_ops example_env_no_device w") (simp add: iteration_def)
  qed
  have m: "snd (main example_ops [example_env_no_device, example_env] empty_world) =
     Crashed (OtherException (ascii ''sounddevice.PortAudioError'') (ascii ''Error querying device -1''))"
    using i[of "banner empty_world"]
    by (cases "iteration example_ops example_env_no_device (banner empty_world)") (simp add: main_def)
  from c i[of empty_world] m show ?thesis by simp
qed

end
